theory Spec2Isabelle
  imports Complex_Main "HOL-Library.Char_ord" "HOL-Library.List_Lexorder"
begin

section \<open>Numbers and strings of the host language\<close>

text \<open>
  A JavaScript number is a finite value, one of the two infinities, or NaN.  Finite
  values are kept as exact rationals: the rounding of a result to the nearest double is
  not part of the model, only the overflow of a parsed literal to an infinity is.
  A value that may be \<^verbatim>\<open>undefined\<close> is an option, \<open>None\<close> standing for \<^verbatim>\<open>undefined\<close>.
\<close>

datatype jsnum = Fin rat | PosInf | NegInf | NaN

text \<open>\<^verbatim>\<open>a <= b\<close> on numbers: false as soon as one side is NaN.\<close>

fun num_le :: "jsnum \<Rightarrow> jsnum \<Rightarrow> bool" where
  "num_le NaN b = False"
| "num_le a NaN = False"
| "num_le NegInf b = True"
| "num_le a PosInf = True"
| "num_le (Fin a) (Fin b) = (a \<le> b)"
| "num_le (Fin a) NegInf = False"
| "num_le PosInf b = False"

text \<open>\<^verbatim>\<open>a < b\<close> on numbers.\<close>

fun num_lt :: "jsnum \<Rightarrow> jsnum \<Rightarrow> bool" where
  "num_lt NaN b = False"
| "num_lt a NaN = False"
| "num_lt (Fin a) (Fin b) = (a < b)"
| "num_lt NegInf NegInf = False"
| "num_lt NegInf b = True"
| "num_lt PosInf b = False"
| "num_lt (Fin a) PosInf = True"
| "num_lt (Fin a) NegInf = False"

text \<open>\<^verbatim>\<open>a - b\<close> on numbers.\<close>

fun num_sub :: "jsnum \<Rightarrow> jsnum \<Rightarrow> jsnum" where
  "num_sub NaN b = NaN"
| "num_sub a NaN = NaN"
| "num_sub (Fin a) (Fin b) = Fin (a - b)"
| "num_sub PosInf PosInf = NaN"
| "num_sub NegInf NegInf = NaN"
| "num_sub PosInf b = PosInf"
| "num_sub NegInf b = NegInf"
| "num_sub (Fin a) PosInf = NegInf"
| "num_sub (Fin a) NegInf = PosInf"

text \<open>
  The conversion of a possibly undefined number to a number (\<^verbatim>\<open>undefined\<close> becomes NaN),
  and the comparisons of the language on such values: \<^verbatim>\<open>a === b\<close> (never true of NaN or
  of \<^verbatim>\<open>undefined\<close> against a number) and \<^verbatim>\<open>a <= b\<close>.
\<close>

definition toNum :: "jsnum option \<Rightarrow> jsnum" where
  "toNum v = (case v of None \<Rightarrow> NaN | Some n \<Rightarrow> n)"

definition strict_eq :: "jsnum \<Rightarrow> jsnum option \<Rightarrow> bool" where
  "strict_eq a v = (case v of None \<Rightarrow> False | Some b \<Rightarrow> a \<noteq> NaN \<and> a = b)"

definition js_le :: "jsnum option \<Rightarrow> jsnum option \<Rightarrow> bool" where
  "js_le a b = num_le (toNum a) (toNum b)"

text \<open>\<^verbatim>\<open>Number.isFinite(v)\<close>: true of finite numbers only.\<close>

definition Number_isFinite :: "jsnum option \<Rightarrow> bool" where
  "Number_isFinite v = (case v of Some (Fin q) \<Rightarrow> True | _ \<Rightarrow> False)"

text \<open>
  Strings are lists of code units; the model covers the code units 0 to 255.  There the
  white space of the language (the class \<^verbatim>\<open>\s\<close>, and what \<^verbatim>\<open>trim\<close> removes) is tab, line
  feed, vertical tab, form feed, carriage return, space and the no-break space; the
  class \<^verbatim>\<open>\w\<close> is the ASCII letters, the digits and the underscore.
\<close>

definition isSpace :: "char \<Rightarrow> bool" where
  "isSpace c =
     (c \<in> set [CHR 0x09, CHR 0x0A, CHR 0x0B, CHR 0x0C, CHR 0x0D, CHR 0x20, CHR 0xA0])"

definition isWord :: "char \<Rightarrow> bool" where
  "isWord c = (c \<in> set ''abcdefghijklmnopqrstuvwxyzABCDEFGHIJKLMNOPQRSTUVWXYZ0123456789_'')"

text \<open>
  \<^verbatim>\<open>toLowerCase\<close> on the code units 0 to 255: the ASCII capitals and the capitals of the
  upper half (0xC0 to 0xDE, the multiplication sign 0xD7 apart) move to their small
  letters, 0x20 further up; every other code unit stays.
\<close>

definition upperChars :: "char list" where
  "upperChars =
     ''ABCDEFGHIJKLMNOPQRSTUVWXYZ'' @
       [CHR 0xC0, CHR 0xC1, CHR 0xC2, CHR 0xC3, CHR 0xC4, CHR 0xC5, CHR 0xC6, CHR 0xC7,
        CHR 0xC8, CHR 0xC9, CHR 0xCA, CHR 0xCB, CHR 0xCC, CHR 0xCD, CHR 0xCE, CHR 0xCF,
        CHR 0xD0, CHR 0xD1, CHR 0xD2, CHR 0xD3, CHR 0xD4, CHR 0xD5, CHR 0xD6, CHR 0xD8,
        CHR 0xD9, CHR 0xDA, CHR 0xDB, CHR 0xDC, CHR 0xDD, CHR 0xDE]"

definition lowerChars :: "char list" where
  "lowerChars =
     ''abcdefghijklmnopqrstuvwxyz'' @
       [CHR 0xE0, CHR 0xE1, CHR 0xE2, CHR 0xE3, CHR 0xE4, CHR 0xE5, CHR 0xE6, CHR 0xE7,
        CHR 0xE8, CHR 0xE9, CHR 0xEA, CHR 0xEB, CHR 0xEC, CHR 0xED, CHR 0xEE, CHR 0xEF,
        CHR 0xF0, CHR 0xF1, CHR 0xF2, CHR 0xF3, CHR 0xF4, CHR 0xF5, CHR 0xF6, CHR 0xF8,
        CHR 0xF9, CHR 0xFA, CHR 0xFB, CHR 0xFC, CHR 0xFD, CHR 0xFE]"

definition lowerChar :: "char \<Rightarrow> char" where
  "lowerChar c = (case map_of (zip upperChars lowerChars) c of Some l \<Rightarrow> l | None \<Rightarrow> c)"

definition toLowerCase :: "string \<Rightarrow> string" where
  "toLowerCase s = map lowerChar s"

definition trim :: "string \<Rightarrow> string" where
  "trim s = rev (dropWhile isSpace (rev (dropWhile isSpace s)))"

text \<open>\<^verbatim>\<open>s.replace(/\s+/g, " ")\<close>: every maximal run of white space becomes one space.\<close>

function collapseSpaces :: "string \<Rightarrow> string" where
  "collapseSpaces [] = []"
| "collapseSpaces (c # cs) =
     (if isSpace c then CHR '' '' # collapseSpaces (dropWhile isSpace cs)
      else c # collapseSpaces cs)"
  by pat_completeness auto
termination
  by (relation "measure length") (auto simp: length_dropWhile_le less_Suc_eq_le)

text \<open>\<^verbatim>\<open>s.replace(/[^\w& ]/g, "")\<close>: only word characters, ampersands and spaces stay.\<close>

definition stripPunct :: "string \<Rightarrow> string" where
  "stripPunct s = filter (\<lambda>c. isWord c \<or> c = CHR ''&'' \<or> c = CHR '' '') s"

subsection \<open>The name normalizer\<close>

text \<open>
  \<^verbatim>\<open>norm = s => (s ?? "").toLowerCase().replace(/\s+/g, " ").replace(/[^\w& ]/g, "").trim()\<close>
\<close>

definition norm_js :: "string option \<Rightarrow> string" where
  "norm_js s =
     trim (stripPunct (collapseSpaces (toLowerCase (case s of None \<Rightarrow> [] | Some t \<Rightarrow> t))))"

subsection \<open>String to number\<close>

text \<open>
  \<^verbatim>\<open>Number(v)\<close> on a cell of a row, which is a string or \<^verbatim>\<open>undefined\<close>.  \<^verbatim>\<open>undefined\<close> gives
  NaN.  A string is trimmed; the empty string gives 0; a binary, octal or hexadecimal
  integer literal (\<^verbatim>\<open>0b\<close>, \<^verbatim>\<open>0o\<close>, \<^verbatim>\<open>0x\<close>) or a signed decimal literal (digits, fraction,
  exponent, or \<^verbatim>\<open>Infinity\<close>) gives its value, and a literal too big for a double gives
  an infinity; every other string gives NaN.
\<close>

definition isDigit :: "char \<Rightarrow> bool" where
  "isDigit c = (c \<in> set ''0123456789'')"

definition digitVal :: "char \<Rightarrow> nat" where
  "digitVal c =
     (let n = of_char c :: nat
      in if 48 \<le> n \<and> n \<le> 57 then n - 48
         else if 97 \<le> n \<and> n \<le> 102 then n - 87
         else n - 55)"

definition isRadixDigit :: "nat \<Rightarrow> char \<Rightarrow> bool" where
  "isRadixDigit b c =
     ((isDigit c \<or> c \<in> set ''abcdefABCDEF'') \<and> digitVal c < b)"

definition radixVal :: "nat \<Rightarrow> string \<Rightarrow> nat" where
  "radixVal b ds = foldl (\<lambda>n c. b * n + digitVal c) 0 ds"

definition scale10 :: "rat \<Rightarrow> int \<Rightarrow> rat" where
  "scale10 q e = (if 0 \<le> e then q * 10 ^ nat e else q / 10 ^ nat (- e))"

text \<open>A value at or beyond the midpoint above the largest double rounds to an infinity.\<close>

definition overflow :: "rat \<Rightarrow> jsnum" where
  "overflow q =
     (if 2 ^ 1024 - 2 ^ 970 \<le> q then PosInf
      else if q \<le> - (2 ^ 1024 - 2 ^ 970) then NegInf
      else Fin q)"

definition parseExponent :: "string \<Rightarrow> int option" where
  "parseExponent s =
     (case s of
        [] \<Rightarrow> Some 0
      | c # r \<Rightarrow>
          if c = CHR ''e'' \<or> c = CHR ''E'' then
            (let neg = (case r of [] \<Rightarrow> False | d # r' \<Rightarrow> d = CHR ''-'');
                 ds = (case r of [] \<Rightarrow> []
                       | d # r' \<Rightarrow> if d = CHR ''-'' \<or> d = CHR ''+'' then r' else r)
             in if ds \<noteq> [] \<and> list_all isDigit ds
                then Some (if neg then - int (radixVal 10 ds) else int (radixVal 10 ds))
                else None)
          else None)"

definition strUnsignedDecimal :: "string \<Rightarrow> rat option" where
  "strUnsignedDecimal s =
     (let ip = takeWhile isDigit s;
          r1 = dropWhile isDigit s;
          dot = (case r1 of [] \<Rightarrow> False | c # r \<Rightarrow> c = CHR ''.'');
          fp = (if dot then takeWhile isDigit (tl r1) else []);
          r2 = (if dot then dropWhile isDigit (tl r1) else r1)
      in if ip = [] \<and> fp = [] then None
         else (case parseExponent r2 of
                 None \<Rightarrow> None
               | Some e \<Rightarrow>
                   Some (scale10 (of_nat (radixVal 10 (ip @ fp))) (e - int (length fp)))))"

definition strDecimal :: "string \<Rightarrow> jsnum option" where
  "strDecimal s =
     (let neg = (case s of [] \<Rightarrow> False | c # r \<Rightarrow> c = CHR ''-'');
          u = (case s of [] \<Rightarrow> []
               | c # r \<Rightarrow> if c = CHR ''-'' \<or> c = CHR ''+'' then r else s)
      in if u = ''Infinity'' then Some (if neg then NegInf else PosInf)
         else (case strUnsignedDecimal u of
                 None \<Rightarrow> None
               | Some q \<Rightarrow> Some (overflow (if neg then - q else q))))"

definition nonDecimal :: "string \<Rightarrow> jsnum option" where
  "nonDecimal s =
     (case s of
        c0 # c1 # ds \<Rightarrow>
          (let b = (if c1 = CHR ''x'' \<or> c1 = CHR ''X'' then 16
                    else if c1 = CHR ''o'' \<or> c1 = CHR ''O'' then 8
                    else if c1 = CHR ''b'' \<or> c1 = CHR ''B'' then 2 else (0::nat))
           in if c0 = CHR ''0'' \<and> b \<noteq> 0 \<and> ds \<noteq> [] \<and> list_all (isRadixDigit b) ds
              then Some (overflow (of_nat (radixVal b ds))) else None)
      | _ \<Rightarrow> None)"

definition Number :: "string option \<Rightarrow> jsnum" where
  "Number v =
     (case v of
        None \<Rightarrow> NaN
      | Some s \<Rightarrow>
          (let t = trim s
           in if t = [] then Fin 0
              else (case nonDecimal t of
                      Some n \<Rightarrow> n
                    | None \<Rightarrow> (case strDecimal t of Some n \<Rightarrow> n | None \<Rightarrow> NaN))))"

section \<open>Ferns\<close>

subsection \<open>Style thresholds\<close>

text \<open>
  \<^verbatim>\<open>chooseStyle(value)\<close> returns the pair of a colour and a point count.
\<close>

definition chooseStyle :: "jsnum option \<Rightarrow> string \<times> nat" where
  "chooseStyle v =
     (if \<not> Number_isFinite v then (''#555555'', 5000)
      else if js_le v (Some (Fin 50)) then (''#a56c34'', 1000)
      else if js_le v (Some (Fin 100)) then (''#96ad2f'', 2500)
      else if js_le v (Some (Fin 200)) then (''#3ba84d'', 5000)
      else if js_le v (Some (Fin 300)) then (''#1f6e2c'', 6000)
      else (''#325c49'', 7500))"

text \<open>
  The threshold bracket of a finite value, in the words of the specification: the
  thresholds 50, 100, 200 and 300 are ordered and each is the inclusive upper end of its
  bracket, so the bracket of a value is the number of thresholds strictly below it.  The
  styles of the five brackets, in order, and the style of an unknown value.
\<close>

definition thresholds :: "rat list" where
  "thresholds = [50, 100, 200, 300]"

definition bracket :: "rat \<Rightarrow> nat" where
  "bracket q = length (filter (\<lambda>t. t < q) thresholds)"

definition bracketStyles :: "(string \<times> nat) list" where
  "bracketStyles =
     [(''#a56c34'', 1000), (''#96ad2f'', 2500), (''#3ba84d'', 5000),
      (''#1f6e2c'', 6000), (''#325c49'', 7500)]"

definition unknownStyle :: "string \<times> nat" where
  "unknownStyle = (''#555555'', 5000)"

subsection \<open>The iterated function system\<close>

definition IFS :: "rat list list" where
  "IFS =
     [[0.00, 0.00, 0.00, 0.16, 0.00, 0.00, 0.01],
      [0.85, 0.04, - 0.04, 0.85, 0.00, 1.60, 0.85],
      [0.20, - 0.26, 0.23, 0.22, 0.00, 1.60, 0.07],
      [- 0.15, 0.28, 0.26, 0.24, 0.00, 0.44, 0.07]]"

definition SCALE :: rat where
  "SCALE = 34"

definition Y_OFF :: rat where
  "Y_OFF = - 40"

text \<open>
  The choice of a transform by the random selector \<open>r\<close> (the \<^verbatim>\<open>if\<close> chain of the point
  loop), and the application of a transform \<^verbatim>\<open>[a, b, c, d, e, f]\<close> to the running state.
\<close>

definition pickTransform :: "rat \<Rightarrow> rat list" where
  "pickTransform r =
     (if r < IFS ! 0 ! 6 then IFS ! 0
      else if r < 0.86 then IFS ! 1
      else if r < 0.93 then IFS ! 2
      else IFS ! 3)"

definition applyTransform :: "rat list \<Rightarrow> rat \<times> rat \<Rightarrow> rat \<times> rat" where
  "applyTransform t p =
     (let a = t ! 0; b = t ! 1; c = t ! 2; d = t ! 3; e = t ! 4; f = t ! 5;
          x = fst p; y = snd p;
          nx = a * x + b * y + e;
          ny = c * x + d * y + f
      in (nx, ny))"

text \<open>
  A colour channel of \<^verbatim>\<open>new THREE.Color(hex)\<close> is kept symbolic: the channel and the
  hexadecimal string it is read from.  \<open>Zero\<close> is the initial content of a typed array.
\<close>

datatype channel = Zero | Red string | Green string | Blue string

record geometry =
  positions :: "rat list"
  colors :: "channel list"

text \<open>
  The state of the point loop of \<^verbatim>\<open>buildFernGeometryForValue\<close>: the running point and the
  two typed arrays.  \<open>fernLoop rs hex k\<close> is the state after \<open>k\<close> iterations, \<open>rs i\<close> being
  the value \<^verbatim>\<open>Math.random()\<close> returns in iteration \<open>i\<close>; it starts from the origin and
  arrays of \<open>n * 3\<close> zeros.
\<close>

record fern_state =
  fx :: rat
  fy :: rat
  fpositions :: "rat list"
  fcolors :: "channel list"

definition fernBody :: "string \<Rightarrow> nat \<Rightarrow> rat \<Rightarrow> fern_state \<Rightarrow> fern_state" where
  "fernBody hex i r s =
     (let p = applyTransform (pickTransform r) (fx s, fy s);
          x = fst p; y = snd p;
          base = i * 3
      in \<lparr> fx = x, fy = y,
           fpositions = (fpositions s)
             [base + 0 := x * SCALE, base + 1 := y * SCALE + Y_OFF, base + 2 := 0],
           fcolors = (fcolors s)
             [base + 0 := Red hex, base + 1 := Green hex, base + 2 := Blue hex] \<rparr>)"

primrec fernLoop :: "(nat \<Rightarrow> rat) \<Rightarrow> string \<Rightarrow> nat \<Rightarrow> nat \<Rightarrow> fern_state" where
  "fernLoop rs hex n 0 =
     \<lparr> fx = 0, fy = 0, fpositions = replicate (n * 3) 0, fcolors = replicate (n * 3) Zero \<rparr>"
| "fernLoop rs hex n (Suc k) = fernBody hex k (rs k) (fernLoop rs hex n k)"

definition buildFernGeometryForValue :: "(nat \<Rightarrow> rat) \<Rightarrow> jsnum option \<Rightarrow> geometry" where
  "buildFernGeometryForValue rs v =
     (let hex = fst (chooseStyle v);
          numPoints = snd (chooseStyle v);
          s = fernLoop rs hex numPoints numPoints
      in \<lparr> positions = fpositions s, colors = fcolors s \<rparr>)"

section \<open>The alias table\<close>

text \<open>
  A plain object is the list of its own properties in insertion order, with distinct
  keys.  Writing a property replaces the value of a key that is there and appends a new
  key otherwise; this is what an object literal with computed keys and
  \<^verbatim>\<open>Object.fromEntries\<close> do with their entries in turn.  \<^verbatim>\<open>Object.entries\<close> of an object none of
  whose keys is an array index lists the own properties in insertion order.
\<close>

type_synonym 'v obj = "(string \<times> 'v) list"

fun obj_put :: "'v obj \<Rightarrow> string \<Rightarrow> 'v \<Rightarrow> 'v obj" where
  "obj_put [] k v = [(k, v)]"
| "obj_put ((k', v') # kvs) k v =
     (if k' = k then (k, v) # kvs else (k', v') # obj_put kvs k v)"

definition fromEntries :: "(string \<times> 'v) list \<Rightarrow> 'v obj" where
  "fromEntries es = foldl (\<lambda>ob e. obj_put ob (fst e) (snd e)) [] es"

text \<open>
  Reading \<^verbatim>\<open>ob[k]\<close>: an own property, else a member inherited from \<^verbatim>\<open>Object.prototype\<close>
  (a function or an object, never a string), else \<^verbatim>\<open>undefined\<close>.
\<close>

datatype 'v lookup = Own 'v | Inherited string | Absent

definition objectPrototypeNames :: "string list" where
  "objectPrototypeNames =
     [''constructor'', ''__defineGetter__'', ''__defineSetter__'', ''hasOwnProperty'',
      ''__lookupGetter__'', ''__lookupSetter__'', ''isPrototypeOf'',
      ''propertyIsEnumerable'', ''toString'', ''valueOf'', ''__proto__'',
      ''toLocaleString'']"

definition getProp :: "'v obj \<Rightarrow> string \<Rightarrow> 'v lookup" where
  "getProp ob k =
     (case map_of ob k of
        Some v \<Rightarrow> Own v
      | None \<Rightarrow> if k \<in> set objectPrototypeNames then Inherited k else Absent)"

definition NAME_ALIASES :: "string obj" where
  "NAME_ALIASES = fromEntries
     [(norm_js (Some ''Andaman & Nicobar Islands''), norm_js (Some ''1'')),
      (norm_js (Some ''Arunachal Pradesh''), norm_js (Some ''2'')),
      (norm_js (Some ''Assam & Meghalaya''), norm_js (Some ''3'')),
      (norm_js (Some ''Naga Mani Mizo Tripura''), norm_js (Some ''4'')),
      (norm_js (Some ''Sub Himalayan West Bengal & Sikkim''), norm_js (Some ''5'')),
      (norm_js (Some ''Gangetic West Bengal''), norm_js (Some ''6'')),
      (norm_js (Some ''Orissa''), norm_js (Some ''7'')),
      (norm_js (Some ''Jharkhand''), norm_js (Some ''8'')),
      (norm_js (Some ''Bihar''), norm_js (Some ''9'')),
      (norm_js (Some ''East Uttar Pradesh''), norm_js (Some ''10'')),
      (norm_js (Some ''West Uttar Pradesh''), norm_js (Some ''11'')),
      (norm_js (Some ''Uttarakhand''), norm_js (Some ''12'')),
      (norm_js (Some ''Haryana Delhi & Chandigarh''), norm_js (Some ''13'')),
      (norm_js (Some ''Punjab''), norm_js (Some ''14'')),
      (norm_js (Some ''Himachal Pradesh''), norm_js (Some ''15'')),
      (norm_js (Some ''Jammu & Kashmir''), norm_js (Some ''16'')),
      (norm_js (Some ''West Rajasthan''), norm_js (Some ''17'')),
      (norm_js (Some ''East Rajasthan''), norm_js (Some ''18'')),
      (norm_js (Some ''West Madhya Pradesh''), norm_js (Some ''19'')),
      (norm_js (Some ''East Madhya Pradesh''), norm_js (Some ''20'')),
      (norm_js (Some ''Gujarat Region''), norm_js (Some ''21'')),
      (norm_js (Some ''Saurashtra & Kutch''), norm_js (Some ''22'')),
      (norm_js (Some ''Konkan & Goa''), norm_js (Some ''23'')),
      (norm_js (Some ''Madhya Maharashtra''), norm_js (Some ''24'')),
      (norm_js (Some ''Matathwada''), norm_js (Some ''25'')),
      (norm_js (Some ''Vidarbha''), norm_js (Some ''26'')),
      (norm_js (Some ''Chhattisgarh''), norm_js (Some ''27'')),
      (norm_js (Some ''Coastal Andhra Pradesh''), norm_js (Some ''28'')),
      (norm_js (Some ''Telangana''), norm_js (Some ''29'')),
      (norm_js (Some ''Rayalseema''), norm_js (Some ''30'')),
      (norm_js (Some ''Tamil Nadu''), norm_js (Some ''31'')),
      (norm_js (Some ''Coastal Karnataka''), norm_js (Some ''32'')),
      (norm_js (Some ''North Interior Karnataka''), norm_js (Some ''33'')),
      (norm_js (Some ''South Interior Karnataka''), norm_js (Some ''34'')),
      (norm_js (Some ''Kerala''), norm_js (Some ''35'')),
      (norm_js (Some ''Lakshadweep''), norm_js (Some ''36''))]"

text \<open>
  \<^verbatim>\<open>Object.fromEntries(Object.entries(t).map(([csvKey, topoKey]) => [topoKey, csvKey]))\<close>
\<close>

definition reverseTable :: "string obj \<Rightarrow> string obj" where
  "reverseTable t = fromEntries (map (\<lambda>e. (snd e, fst e)) t)"

definition REVERSE_ALIASES :: "string obj" where
  "REVERSE_ALIASES = reverseTable NAME_ALIASES"

text \<open>
  A key of the anchor map and of the scale map: a string, or the member of
  \<^verbatim>\<open>Object.prototype\<close> that a look-up in the alias table returned.
  \<open>topoKeyOf sub\<close> is \<^verbatim>\<open>NAME_ALIASES[norm(sub)] ?? norm(sub)\<close>.
\<close>

datatype anchorKey = KeyStr string | KeyProto string

definition topoKeyOf :: "string \<Rightarrow> anchorKey" where
  "topoKeyOf sub =
     (case getProp NAME_ALIASES (norm_js (Some sub)) of
        Own v \<Rightarrow> KeyStr v
      | Inherited n \<Rightarrow> KeyProto n
      | Absent \<Rightarrow> KeyStr (norm_js (Some sub)))"

section \<open>Loaders\<close>

subsection \<open>Boundaries\<close>

text \<open>
  A decoded JSON document.  The properties of a decoded object are listed in the order
  \<^verbatim>\<open>Object.keys\<close> enumerates them, with distinct keys.
\<close>

datatype json =
  JNull | JBool bool | JNum jsnum | JStr string | JArr "json list"
| JObj "(string \<times> json) list"

text \<open>
  What \<^verbatim>\<open>fetch\<close> and \<^verbatim>\<open>resp.json()\<close> give: the request is rejected, or there is a response
  with its \<^verbatim>\<open>ok\<close> flag, its status and its body, decoded when it is valid JSON.
\<close>

datatype response = Rejected | Response bool nat "json option"

datatype error =
  FetchRejected
| FailedToLoad string nat
| JsonSyntaxError
| TypeError
| UnrecognizedDataType "json option"

text \<open>
  The outcome of the loader: an error is thrown, a document is returned, or the result
  of the library call \<^verbatim>\<open>topoFeature(data, o)\<close> is returned (or thrown) as it is.
\<close>

datatype outcome = Throws error | Returns json | ReturnsTopoFeature json "json option"

text \<open>
  Reading a member \<^verbatim>\<open>d.k\<close> or \<^verbatim>\<open>d[k]\<close>, for the keys the loader asks for: \<^verbatim>\<open>type\<close>,
  \<^verbatim>\<open>objects\<close>, the first key of \<^verbatim>\<open>d\<close>, and \<^verbatim>\<open>undefined\<close>.  Reading a member of \<^verbatim>\<open>null\<close> is a
  type error; an array or a string has its first element under the key \<^verbatim>\<open>0\<close>.
\<close>

definition member :: "json \<Rightarrow> string \<Rightarrow> error + json option" where
  "member d k =
     (case d of
        JNull \<Rightarrow> Inl TypeError
      | JObj kvs \<Rightarrow> Inr (map_of kvs k)
      | JArr xs \<Rightarrow> Inr (if k = ''0'' \<and> xs \<noteq> [] then Some (hd xs) else None)
      | JStr s \<Rightarrow> Inr (if k = ''0'' \<and> s \<noteq> [] then Some (JStr [hd s]) else None)
      | _ \<Rightarrow> Inr None)"

text \<open>
  \<^verbatim>\<open>Object.keys(v)[0]\<close>: a type error on \<^verbatim>\<open>undefined\<close> and \<^verbatim>\<open>null\<close>, else the first
  enumerated key, or \<^verbatim>\<open>undefined\<close> when there is none.
\<close>

definition firstKey :: "json option \<Rightarrow> error + string option" where
  "firstKey v =
     (case v of
        None \<Rightarrow> Inl TypeError
      | Some JNull \<Rightarrow> Inl TypeError
      | Some (JObj kvs) \<Rightarrow> Inr (case kvs of [] \<Rightarrow> None | kv # _ \<Rightarrow> Some (fst kv))
      | Some (JArr xs) \<Rightarrow> Inr (if xs = [] then None else Some ''0'')
      | Some (JStr s) \<Rightarrow> Inr (if s = [] then None else Some ''0'')
      | Some _ \<Rightarrow> Inr None)"

text \<open>A property key made of a possibly undefined string.\<close>

definition propName :: "string option \<Rightarrow> string" where
  "propName k = (case k of None \<Rightarrow> ''undefined'' | Some s \<Rightarrow> s)"

definition loadBoundaries :: "string \<Rightarrow> response \<Rightarrow> outcome" where
  "loadBoundaries url resp =
     (case resp of
        Rejected \<Rightarrow> Throws FetchRejected
      | Response ok status body \<Rightarrow>
          if \<not> ok then Throws (FailedToLoad url status)
          else (case body of
                  None \<Rightarrow> Throws JsonSyntaxError
                | Some d \<Rightarrow>
                    (case member d ''type'' of
                       Inl e \<Rightarrow> Throws e
                     | Inr t \<Rightarrow>
                         if t = Some (JStr ''Topology'') then
                           (case member d ''objects'' of
                              Inl e \<Rightarrow> Throws e
                            | Inr objects \<Rightarrow>
                                (case firstKey objects of
                                   Inl e \<Rightarrow> Throws e
                                 | Inr objName \<Rightarrow>
                                     (case member (the objects) (propName objName) of
                                        Inl e \<Rightarrow> Throws e
                                      | Inr ob \<Rightarrow> ReturnsTopoFeature d ob)))
                         else if t = Some (JStr ''FeatureCollection'') then Returns d
                         else Throws (UnrecognizedDataType t))))"

subsection \<open>Rows of the table\<close>

text \<open>
  A row is an object whose properties are strings; only the columns of the table are
  ever read from it, so it is kept as a map from column names to cells.
\<close>

type_synonym row = "string \<rightharpoonup> string"

text \<open>\<^verbatim>\<open>s.split(d)\<close> on a one-character separator: there is always at least one field.\<close>

fun splitOn :: "char \<Rightarrow> string \<Rightarrow> string list" where
  "splitOn d [] = [[]]"
| "splitOn d (c # cs) =
     (if c = d then [] # splitOn d cs
      else (case splitOn d cs of [] \<Rightarrow> [[c]] | f # fs \<Rightarrow> (c # f) # fs))"

text \<open>\<^verbatim>\<open>s.split(/\r?\n/)\<close>: a line ends at a line feed or at a carriage return and line feed.\<close>

fun splitLines :: "string \<Rightarrow> string list" where
  "splitLines [] = [[]]"
| "splitLines [c] = (if c = CHR 0x0A then [[], []] else [[c]])"
| "splitLines (c # d # cs) =
     (if c = CHR 0x0A then [] # splitLines (d # cs)
      else if c = CHR 0x0D \<and> d = CHR 0x0A then [] # splitLines cs
      else (case splitLines (d # cs) of [] \<Rightarrow> [[c]] | l # ls \<Rightarrow> (c # l) # ls))"

definition splitCSVLine :: "string \<Rightarrow> string list" where
  "splitCSVLine line = map trim (splitOn CHR '','' line)"

text \<open>
  \<^verbatim>\<open>for (let j = 0; j < headers.length; j++) obj[headers[j]] = parts[j]\<close>: a later column
  of the same name overwrites an earlier one.
\<close>

definition mkRow :: "string list \<Rightarrow> string list \<Rightarrow> row" where
  "mkRow headers parts =
     foldl (\<lambda>ob j. ob(headers ! j \<mapsto> parts ! j)) Map.empty [0 ..< length headers]"

text \<open>
  The loop over the lines after the header: a line whose number of fields is not the
  header's is skipped (\<^verbatim>\<open>continue\<close>), every other line is pushed as a row.
\<close>

fun rowsLoop :: "string list \<Rightarrow> string list \<Rightarrow> row list \<Rightarrow> row list" where
  "rowsLoop headers [] rows = rows"
| "rowsLoop headers (line # rest) rows =
     (let parts = splitCSVLine line
      in if length parts \<noteq> length headers then rowsLoop headers rest rows
         else rowsLoop headers rest (rows @ [mkRow headers parts]))"

text \<open>
  \<^verbatim>\<open>loadCSVRows\<close>, on the text the fetch gives (\<open>None\<close>: the fetch is rejected).  A text with
  no non-empty line has no \<^verbatim>\<open>lines[0]\<close>, and splitting it is a type error.
\<close>

definition csvLines :: "string \<Rightarrow> string list" where
  "csvLines txt = filter (\<lambda>l. l \<noteq> []) (splitLines txt)"

definition loadCSVRows :: "string option \<Rightarrow> error + row list" where
  "loadCSVRows fetched =
     (case fetched of
        None \<Rightarrow> Inl FetchRejected
      | Some txt \<Rightarrow>
          (case csvLines txt of
             [] \<Rightarrow> Inl TypeError
           | l0 # rest \<Rightarrow>
               (let headers = map trim (splitOn CHR '','' l0)
                in Inr (rowsLoop headers rest []))))"


section \<open>The state of the application\<close>

definition MONTHS :: "string list" where
  "MONTHS =
     [''JAN'', ''FEB'', ''MAR'', ''APR'', ''MAY'', ''JUN'',
      ''JUL'', ''AUG'', ''SEP'', ''OCT'', ''NOV'', ''DEC'']"

definition YEAR_COL :: string where
  "YEAR_COL = ''YEAR''"

definition DEFAULT_SCALE :: rat where
  "DEFAULT_SCALE = 0.25"

text \<open>\<^verbatim>\<open>xs[i]\<close> on an array: \<^verbatim>\<open>undefined\<close> out of range.\<close>

definition nth_opt :: "'a list \<Rightarrow> nat \<Rightarrow> 'a option" where
  "nth_opt xs i = (if i < length xs then Some (xs ! i) else None)"

type_synonym vec3 = "rat \<times> rat \<times> rat"

text \<open>
  A point cloud: its geometry, its position, its uniform scale, and the two entries of
  its \<^verbatim>\<open>userData\<close>, which are \<^verbatim>\<open>undefined\<close> until they are written.
\<close>

record mesh =
  geometry :: geometry
  position :: vec3
  scale :: rat
  subdivision :: "string option"
  key :: "anchorKey option"

text \<open>
  The module-level variables.  The maps of the source that are iterated (the rain data)
  are lists of entries in insertion order with distinct keys; those that are only read
  by key are partial functions.  Two components stand for the surroundings:
  \<open>randoms\<close> is the sequence of the results \<^verbatim>\<open>Math.random()\<close> is still to return, and
  \<open>hasYearSelect\<close> says whether the document has the element \<^verbatim>\<open>yearSelect\<close>.  The scene
  graph, the renderer and the timeline elements hold no value that the functions below
  read back, and are left out.
\<close>

record state =
  anchors :: "anchorKey \<rightharpoonup> vec3"
  scaleBySubdivision :: "anchorKey \<rightharpoonup> rat"
  dataBySubdivision :: "(string \<times> row list) list"
  subdivisionList :: "string list"
  yearList :: "jsnum list"
  fernMeshes :: "mesh list"
  monthIndex :: nat
  yearIndex :: nat
  tickMs :: rat
  lastTime :: rat
  randoms :: "nat \<Rightarrow> rat"
  hasYearSelect :: bool

definition initialState :: "(nat \<Rightarrow> rat) \<Rightarrow> bool \<Rightarrow> state" where
  "initialState rs sel =
     \<lparr> anchors = Map.empty, scaleBySubdivision = Map.empty, dataBySubdivision = [],
       subdivisionList = [], yearList = [], fernMeshes = [], monthIndex = 0,
       yearIndex = 0, tickMs = 1200, lastTime = 0, randoms = rs, hasYearSelect = sel \<rparr>"

section \<open>The value resolver\<close>

text \<open>The year of a record, as \<^verbatim>\<open>valueFor\<close> and the sort read it: \<^verbatim>\<open>Number(r[YEAR_COL])\<close>.\<close>

definition yearOf :: "row \<Rightarrow> jsnum" where
  "yearOf r = Number (r YEAR_COL)"

text \<open>
  The backward scan of \<^verbatim>\<open>valueFor\<close>:
  \<^verbatim>\<open>for (let i = arr.length - 1; i >= 0; i--) { if (Number(arr[i][YEAR_COL]) <= y) { row = arr[i]; break; } }\<close>.
  \<open>scanBack arr n y\<close> runs it from \<open>i = n - 1\<close> down.
\<close>

fun scanBack :: "row list \<Rightarrow> nat \<Rightarrow> jsnum option \<Rightarrow> row option" where
  "scanBack arr 0 y = None"
| "scanBack arr (Suc i) y =
     (let ry = Number ((arr ! i) YEAR_COL)
      in if js_le (Some ry) y then Some (arr ! i) else scanBack arr i y)"

text \<open>
  \<^verbatim>\<open>valueFor(subdivision, y, m)\<close>, reading the map \<open>d\<close> of the rain data.  The subdivision,
  the year and the month label may each be \<^verbatim>\<open>undefined\<close>.
\<close>

definition valueFor ::
  "(string \<times> row list) list \<Rightarrow> string option \<Rightarrow> jsnum option \<Rightarrow> string option \<Rightarrow> jsnum" where
  "valueFor d sub y m =
     (case (case sub of None \<Rightarrow> None | Some s \<Rightarrow> map_of d s) of
        None \<Rightarrow> NaN
      | Some arr \<Rightarrow>
          if arr = [] then NaN
          else (let row = (case find (\<lambda>r. strict_eq (Number (r YEAR_COL)) y) arr of
                             Some r \<Rightarrow> r
                           | None \<Rightarrow>
                               (case scanBack arr (length arr) y of
                                  Some r \<Rightarrow> r
                                | None \<Rightarrow> arr ! 0))
                in Number (row (propName m))))"

section \<open>Building and updating the ferns\<close>

text \<open>
  \<^verbatim>\<open>createFernMesh(initialValue, pos, scale)\<close> and \<^verbatim>\<open>setFernValue(mesh, value)\<close>; \<open>rs\<close> is the
  sequence of random numbers the call draws from.
\<close>

definition createFernMesh :: "(nat \<Rightarrow> rat) \<Rightarrow> jsnum option \<Rightarrow> vec3 \<Rightarrow> rat \<Rightarrow> mesh" where
  "createFernMesh rs initialValue pos sc =
     \<lparr> geometry = buildFernGeometryForValue rs initialValue, position = pos, scale = sc,
       subdivision = None, key = None \<rparr>"

definition setFernValue :: "(nat \<Rightarrow> rat) \<Rightarrow> mesh \<Rightarrow> jsnum option \<Rightarrow> mesh" where
  "setFernValue rs me v = me\<lparr>geometry := buildFernGeometryForValue rs v\<rparr>"

text \<open>A call that draws \<open>n\<close> random numbers leaves the rest of the sequence.\<close>

definition dropRandoms :: "nat \<Rightarrow> (nat \<Rightarrow> rat) \<Rightarrow> (nat \<Rightarrow> rat)" where
  "dropRandoms n rs = (\<lambda>i. rs (i + n))"

text \<open>
  The year of the first record of a subdivision, as a cell:
  \<^verbatim>\<open>dataBySubdivision.get(sub)?.[0]?.[YEAR_COL]\<close>.
\<close>

definition firstYearCell :: "(string \<times> row list) list \<Rightarrow> string \<Rightarrow> string option" where
  "firstYearCell d sub =
     (case map_of d sub of
        None \<Rightarrow> None
      | Some arr \<Rightarrow> (case arr of [] \<Rightarrow> None | r # _ \<Rightarrow> r YEAR_COL))"

text \<open>
  One iteration of the loop of \<^verbatim>\<open>buildAllFerns\<close>, for the subdivision \<open>sub\<close>; the second
  component counts the ferns without an anchor.
\<close>

definition buildFern :: "string \<Rightarrow> state \<times> nat \<Rightarrow> state \<times> nat" where
  "buildFern sub acc =
     (let st = fst acc; missing = snd acc;
          topoKey = topoKeyOf sub;
          y = (case nth_opt (yearList st) (yearIndex st) of
                 Some yv \<Rightarrow> Some yv
               | None \<Rightarrow> Some (Number (firstYearCell (dataBySubdivision st) sub)));
          m = nth_opt MONTHS (monthIndex st);
          v = valueFor (dataBySubdivision st) (Some sub) y m;
          anchor = anchors st topoKey;
          pos = (case anchor of Some a \<Rightarrow> a | None \<Rightarrow> (0, 0, 0));
          sc = (case scaleBySubdivision st topoKey of Some s \<Rightarrow> s | None \<Rightarrow> DEFAULT_SCALE);
          missing' = (if anchor = None then missing + 1 else missing);
          me = (createFernMesh (randoms st) (Some v) pos sc)
                 \<lparr>subdivision := Some sub, key := Some topoKey\<rparr>
      in (st\<lparr>fernMeshes := fernMeshes st @ [me],
              randoms := dropRandoms (snd (chooseStyle (Some v))) (randoms st)\<rparr>,
          missing'))"

text \<open>
  The loop runs over the indices of \<^verbatim>\<open>subdivisionList\<close>, which it does not change: it is a
  loop over the elements of the list.
\<close>

fun buildLoop :: "string list \<Rightarrow> state \<times> nat \<Rightarrow> state \<times> nat" where
  "buildLoop [] acc = acc"
| "buildLoop (sub # rest) acc = buildLoop rest (buildFern sub acc)"

text \<open>
  \<^verbatim>\<open>buildAllFerns()\<close> returns the new state and the number of ferns without an anchor,
  which it reports in a warning when it is not zero.
\<close>

definition buildAllFerns :: "state \<Rightarrow> state \<times> nat" where
  "buildAllFerns st = buildLoop (subdivisionList st) (st\<lparr>fernMeshes := []\<rparr>, 0)"

text \<open>One iteration of the loop of \<^verbatim>\<open>updateAllFerns\<close>, and the state after \<open>k\<close> iterations.\<close>

definition updateFern :: "jsnum option \<Rightarrow> string option \<Rightarrow> nat \<Rightarrow> state \<Rightarrow> state" where
  "updateFern y m i st =
     (let sub = nth_opt (subdivisionList st) i;
          me = fernMeshes st ! i;
          v = valueFor (dataBySubdivision st) sub y m
      in st\<lparr>fernMeshes := (fernMeshes st)[i := setFernValue (randoms st) me (Some v)],
             randoms := dropRandoms (snd (chooseStyle (Some v))) (randoms st)\<rparr>)"

primrec updateLoop :: "jsnum option \<Rightarrow> string option \<Rightarrow> nat \<Rightarrow> state \<Rightarrow> state" where
  "updateLoop y m 0 st = st"
| "updateLoop y m (Suc i) st = updateFern y m i (updateLoop y m i st)"

definition updateAllFerns :: "state \<Rightarrow> state" where
  "updateAllFerns st =
     (if fernMeshes st = [] then st
      else (let y = nth_opt (yearList st) (yearIndex st);
                m = nth_opt MONTHS (monthIndex st)
            in updateLoop y m (length (fernMeshes st)) st))"

section \<open>Ingestion of the rows\<close>

text \<open>
  The grouping loop of \<^verbatim>\<open>ingestRainRows\<close>: a row without a subdivision (\<^verbatim>\<open>undefined\<close> or the
  empty string) is skipped; a new subdivision gets an empty array at the end of the map;
  the row is pushed on the array of its subdivision.  \<open>named r\<close> says that the row has a
  subdivision: that \<^verbatim>\<open>row["SUBDIVISION"]\<close> is truthy.
\<close>

definition named :: "row \<Rightarrow> bool" where
  "named r = (case r ''SUBDIVISION'' of None \<Rightarrow> False | Some sub \<Rightarrow> sub \<noteq> [])"

definition pushRow :: "string \<Rightarrow> row \<Rightarrow> (string \<times> row list) list \<Rightarrow> (string \<times> row list) list" where
  "pushRow sub r tmp = map (\<lambda>e. if fst e = sub then (fst e, snd e @ [r]) else e) tmp"

fun groupRows :: "row list \<Rightarrow> (string \<times> row list) list \<Rightarrow> (string \<times> row list) list" where
  "groupRows [] tmp = tmp"
| "groupRows (r # rows) tmp =
     (case r ''SUBDIVISION'' of
        None \<Rightarrow> groupRows rows tmp
      | Some sub \<Rightarrow>
          if sub = [] then groupRows rows tmp
          else groupRows rows
                 (pushRow sub r (if map_of tmp sub = None then tmp @ [(sub, [])] else tmp)))"

text \<open>
  \<^verbatim>\<open>arr.sort(cmp)\<close> with a comparison function: the sort is stable, and is modelled as
  the insertion sort that puts an element before the first one it is not greater than.
  Where the comparison function is consistent this is the order the language prescribes;
  where it is not (a year that is NaN compares as equal to every year) the language
  leaves the order to the implementation, and the model fixes one.
\<close>

definition positive :: "jsnum \<Rightarrow> bool" where
  "positive v = num_lt (Fin 0) v"

fun insertBy :: "('a \<Rightarrow> 'a \<Rightarrow> jsnum) \<Rightarrow> 'a \<Rightarrow> 'a list \<Rightarrow> 'a list" where
  "insertBy cmp x [] = [x]"
| "insertBy cmp x (y # ys) =
     (if positive (cmp x y) then y # insertBy cmp x ys else x # y # ys)"

definition sortBy :: "('a \<Rightarrow> 'a \<Rightarrow> jsnum) \<Rightarrow> 'a list \<Rightarrow> 'a list" where
  "sortBy cmp xs = foldr (insertBy cmp) xs []"

definition byYear :: "row \<Rightarrow> row \<Rightarrow> jsnum" where
  "byYear a b = num_sub (Number (a YEAR_COL)) (Number (b YEAR_COL))"

text \<open>Adding to a \<^verbatim>\<open>Set\<close>, kept as the list of its members in insertion order.\<close>

definition setAdd :: "'a list \<Rightarrow> 'a \<Rightarrow> 'a list" where
  "setAdd s x = (if x \<in> set s then s else s @ [x])"

definition addYear :: "jsnum list \<Rightarrow> row \<Rightarrow> jsnum list" where
  "addYear s r =
     (let y = Number (r YEAR_COL) in if Number_isFinite (Some y) then setAdd s y else s)"

text \<open>
  \<^verbatim>\<open>buildYearSelect()\<close>: without the element nothing happens; with it the year index moves
  to the last year, \<^verbatim>\<open>Math.max(0, yearList.length - 1)\<close>.
\<close>

definition buildYearSelect :: "state \<Rightarrow> state" where
  "buildYearSelect st =
     (if \<not> hasYearSelect st then st
      else st\<lparr>yearIndex := nat (max 0 (int (length (yearList st)) - 1))\<rparr>)"

text \<open>
  \<^verbatim>\<open>ingestRainRows(rows)\<close>.  The default \<^verbatim>\<open>sort()\<close> of the names compares strings by their
  code units, which is the lexicographic order of lists of characters.
\<close>

definition ingestRainRows :: "row list \<Rightarrow> state \<Rightarrow> state" where
  "ingestRainRows rows st =
     (let tmp = groupRows rows [];
          d = map (\<lambda>e. (fst e, sortBy byYear (snd e))) tmp;
          subs = sort (map fst d);
          yearSet = foldl addYear [] (concat (map snd d));
          years = sortBy num_sub yearSet;
          st1 = st\<lparr>dataBySubdivision := d, subdivisionList := subs, yearList := years\<rparr>;
          st2 = buildYearSelect st1;
          st3 = fst (buildAllFerns st2)
      in updateAllFerns st3)"

section \<open>The time stepper and the controls\<close>

text \<open>
  \<^verbatim>\<open>step(now)\<close>, called on every animation frame.  \<open>fires now st\<close> is its condition
  \<^verbatim>\<open>now - lastTime >= tickMs && yearList.length\<close>: the call is then an automatic advance.
\<close>

definition fires :: "rat \<Rightarrow> state \<Rightarrow> bool" where
  "fires now st = (tickMs st \<le> now - lastTime st \<and> yearList st \<noteq> [])"

definition step :: "rat \<Rightarrow> state \<Rightarrow> state" where
  "step now st =
     (if fires now st
      then updateAllFerns
             (st\<lparr>lastTime := now, monthIndex := (monthIndex st + 1) mod length MONTHS\<rparr>)
      else st)"

text \<open>
  The two controls: a click on segment \<open>i\<close> of the timeline, and the choice of the year
  \<open>v\<close> in the year selector (\<^verbatim>\<open>yearList.indexOf(v)\<close>, nothing when it is not there).
\<close>

definition clickMonth :: "nat \<Rightarrow> state \<Rightarrow> state" where
  "clickMonth i st = updateAllFerns (st\<lparr>monthIndex := i\<rparr>)"

definition indexOf :: "jsnum list \<Rightarrow> jsnum \<Rightarrow> nat option" where
  "indexOf xs v =
     (if v \<noteq> NaN \<and> v \<in> set xs then Some (length (takeWhile (\<lambda>x. x \<noteq> v) xs)) else None)"

definition selectYear :: "jsnum \<Rightarrow> state \<Rightarrow> state" where
  "selectYear v st =
     (case indexOf (yearList st) v of
        None \<Rightarrow> st
      | Some idx \<Rightarrow> updateAllFerns (st\<lparr>yearIndex := idx\<rparr>))"

text \<open>
  A run of the animation: the calls of \<open>step\<close> at the times of a list, in order, and the
  number of automatic advances among them.
\<close>

fun runSteps :: "rat list \<Rightarrow> state \<Rightarrow> state" where
  "runSteps [] st = st"
| "runSteps (now # nows) st = runSteps nows (step now st)"

fun advances :: "rat list \<Rightarrow> state \<Rightarrow> nat" where
  "advances [] st = 0"
| "advances (now # nows) st = (if fires now st then 1 else 0) + advances nows (step now st)"


section \<open>Sample data of the examples\<close>

text \<open>
  The sample surroundings of the examples: \<^verbatim>\<open>Math.random()\<close> always returns one half, and
  the document has the year selector.
\<close>

definition halves :: "nat \<Rightarrow> rat" where
  "halves i = 1 / 2"

text \<open>
  A state with one year and no fern, at month 5 of year index 0, and twelve frame times
  one tick apart, each of which is an automatic advance.
\<close>

definition stepperState :: state where
  "stepperState = (initialState halves True)\<lparr>yearList := [Fin 2000], monthIndex := 5\<rparr>"

definition twelveTicks :: "rat list" where
  "twelveTicks =
     [1200, 2400, 3600, 4800, 6000, 7200, 8400, 9600, 10800, 12000, 13200, 14400]"

text \<open>
  A table with one region, whose three records have the years 1980, 1985 and 1990 and
  the January values 10, 20 and 30.
\<close>

definition sampleRow :: "string \<Rightarrow> string \<Rightarrow> string \<Rightarrow> row" where
  "sampleRow sub yr jan = mkRow [''SUBDIVISION'', ''YEAR'', ''JAN''] [sub, yr, jan]"

definition keralaRows :: "row list" where
  "keralaRows =
     [sampleRow ''Kerala'' ''1980'' ''10'', sampleRow ''Kerala'' ''1985'' ''20'',
      sampleRow ''Kerala'' ''1990'' ''30'']"

definition keralaData :: "(string \<times> row list) list" where
  "keralaData = [(''Kerala'', keralaRows)]"



text \<open>Two boundary documents, one of each accepted encoding, and the address they come from.\<close>

definition FILE_URL :: string where
  "FILE_URL = ''./india_subdivisions.topo.json''"

definition sampleObject :: json where
  "sampleObject = JObj [(''type'', JStr ''GeometryCollection''), (''geometries'', JArr [])]"

definition sampleTopology :: json where
  "sampleTopology =
     JObj [(''type'', JStr ''Topology''),
           (''objects'', JObj [(''subdivisions'', sampleObject), (''states'', JNull)]),
           (''arcs'', JArr [])]"

definition sampleCollection :: json where
  "sampleCollection = JObj [(''type'', JStr ''FeatureCollection''), (''features'', JArr [])]"

text \<open>
  A state with the sample table and two subdivisions in the list, of which only Kerala
  (key 35 in the boundary data) has an anchor.
\<close>

definition fernState :: state where
  "fernState =
     (initialState halves True)
       \<lparr> anchors := [KeyStr ''35'' \<mapsto> (10, 20, 0)],
         dataBySubdivision := keralaData,
         subdivisionList := [''Kerala'', ''Tamil Nadu''],
         yearList := [Fin 1980, Fin 1985, Fin 1990],
         yearIndex := 2 \<rparr>"

text \<open>
  Two tables as texts.  The first has a header of three fields, a line of two fields and
  a record of each of two regions.  The second has a record without a region name.
\<close>

definition sampleHeader :: "string list" where
  "sampleHeader = [''SUBDIVISION'', ''YEAR'', ''JAN'']"

definition sampleText :: string where
  "sampleText =
     ''SUBDIVISION,YEAR,JAN'' @ [CHR 0x0A] @ ''Kerala,1985,20'' @ [CHR 0x0D, CHR 0x0A] @
     ''Kerala,1980'' @ [CHR 0x0A] @ [CHR 0x0A] @ ''Goa, 1980 ,5'' @ [CHR 0x0A] @
     ''Kerala,1980,10'' @ [CHR 0x0A]"

definition sampleRows :: "row list" where
  "sampleRows =
     [mkRow sampleHeader [''Kerala'', ''1985'', ''20''],
      mkRow sampleHeader [''Goa'', ''1980'', ''5''],
      mkRow sampleHeader [''Kerala'', ''1980'', ''10'']]"

definition orphanText :: string where
  "orphanText =
     ''SUBDIVISION,YEAR'' @ [CHR 0x0A] @ '',2000'' @ [CHR 0x0A] @ ''Kerala,2001''"

definition orphanRows :: "row list" where
  "orphanRows =
     [mkRow [''SUBDIVISION'', ''YEAR''] [[], ''2000''],
      mkRow [''SUBDIVISION'', ''YEAR''] [''Kerala'', ''2001'']]"


section \<open>Properties of the style thresholds\<close>

lemma chooseStyle_finite: "chooseStyle (Some (Fin q)) = bracketStyles ! bracket q"
  by (simp add: chooseStyle_def Number_isFinite_def js_le_def toNum_def bracket_def
      thresholds_def bracketStyles_def)

lemma chooseStyle_not_finite:
  "chooseStyle None = unknownStyle" "chooseStyle (Some NaN) = unknownStyle"
  "chooseStyle (Some PosInf) = unknownStyle" "chooseStyle (Some NegInf) = unknownStyle"
  by (simp_all add: chooseStyle_def Number_isFinite_def unknownStyle_def)

lemma bracket_le_4: "bracket q \<le> 4"
  by (simp add: bracket_def thresholds_def)

lemma bracketStyles_not_unknown: "i \<le> 4 \<Longrightarrow> bracketStyles ! i \<noteq> unknownStyle"
proof -
  assume "i \<le> 4"
  then consider "i = 0" | "i = 1" | "i = 2" | "i = 3" | "i = 4"
    by linarith
  then show ?thesis
    by cases (simp_all add: bracketStyles_def unknownStyle_def)
qed

text \<open>
  Claim C4.  The style of a finite value is the style of its threshold bracket and of
  nothing else.  The upper end of a bracket belongs to it: 45 and 50 are in the same
  bracket and have the same style, and 50.0001 is in the next bracket and has the next
  style.  The undefined value and the three numbers that are not finite have the
  unknown style, which is the style of no finite value; the five styles of the
  brackets differ from each other.
\<close>

theorem chooseStyle_thresholds:
  "chooseStyle (Some (Fin q)) = bracketStyles ! bracket q
   \<and> bracket 45 = bracket 50
   \<and> chooseStyle (Some (Fin 45)) = chooseStyle (Some (Fin 50))
   \<and> bracket 50.0001 = Suc (bracket 50)
   \<and> chooseStyle (Some (Fin 50.0001)) = bracketStyles ! Suc (bracket 50)
   \<and> chooseStyle (Some (Fin 50.0001)) \<noteq> chooseStyle (Some (Fin 50))
   \<and> chooseStyle None = unknownStyle
   \<and> chooseStyle (Some NaN) = unknownStyle
   \<and> chooseStyle (Some PosInf) = unknownStyle
   \<and> chooseStyle (Some NegInf) = unknownStyle
   \<and> chooseStyle (Some (Fin q)) \<noteq> unknownStyle
   \<and> distinct bracketStyles"
proof -
  have b: "bracket 45 = 0" "bracket 50 = 0" "bracket 50.0001 = 1"
    by (simp_all add: bracket_def thresholds_def)
  have d: "distinct bracketStyles"
    by (simp add: bracketStyles_def)
  have n: "bracketStyles ! 1 \<noteq> bracketStyles ! 0"
    by (simp add: bracketStyles_def)
  have u: "chooseStyle (Some (Fin q)) \<noteq> unknownStyle"
    by (simp add: chooseStyle_finite bracketStyles_not_unknown bracket_le_4)
  show ?thesis
    using b d n u by (simp add: chooseStyle_finite chooseStyle_not_finite)
qed

section \<open>Properties of the point loop\<close>

lemma IFS_rows:
  "IFS ! 0 = [0, 0, 0, 0.16, 0, 0, 0.01]"
  "IFS ! 1 = [0.85, 0.04, - 0.04, 0.85, 0, 1.60, 0.85]"
  "IFS ! 2 = [0.20, - 0.26, 0.23, 0.22, 0, 1.60, 0.07]"
  "IFS ! 3 = [- 0.15, 0.28, 0.26, 0.24, 0, 0.44, 0.07]"
  by (simp_all add: IFS_def)

lemma IFS_rows_differ:
  "IFS ! 0 \<noteq> IFS ! 1" "IFS ! 0 \<noteq> IFS ! 2" "IFS ! 0 \<noteq> IFS ! 3"
  "IFS ! 1 \<noteq> IFS ! 2" "IFS ! 1 \<noteq> IFS ! 3" "IFS ! 2 \<noteq> IFS ! 3"
  by (simp_all add: IFS_def)

lemma pickTransform_cases:
  "pickTransform r =
     (if r < 0.01 then IFS ! 0 else if r < 0.86 then IFS ! 1
      else if r < 0.93 then IFS ! 2 else IFS ! 3)"
  by (simp add: pickTransform_def IFS_def)

lemma length_fernLoop:
  "length (fpositions (fernLoop rs hex n k)) = n * 3"
  by (induction k) (simp_all add: fernBody_def Let_def)

text \<open>An iteration writes at its own three indices and leaves the lower ones.\<close>

lemma fernBody_keeps:
  "i < j * 3 \<Longrightarrow> fpositions (fernBody hex j r s) ! i = fpositions s ! i"
  by (simp add: fernBody_def Let_def)

lemma fernLoop_keeps:
  "i < k * 3 \<Longrightarrow> k \<le> j \<Longrightarrow>
     fpositions (fernLoop rs hex n j) ! i = fpositions (fernLoop rs hex n k) ! i"
proof (induction j)
  case 0
  then show ?case by simp
next
  case (Suc j)
  show ?case
  proof (cases "k = Suc j")
    case True
    then show ?thesis by simp
  next
    case False
    with Suc.prems have kj: "k \<le> j" by simp
    with Suc.prems have "i < j * 3" by simp
    then have "fpositions (fernLoop rs hex n (Suc j)) ! i = fpositions (fernLoop rs hex n j) ! i"
      by (simp add: fernBody_keeps)
    with Suc.IH [OF Suc.prems(1) kj] show ?thesis by simp
  qed
qed

lemma fernLoop_writes:
  assumes "k < n"
  shows "fpositions (fernLoop rs hex n (Suc k)) ! (k * 3) = fx (fernLoop rs hex n (Suc k)) * SCALE"
    and "fpositions (fernLoop rs hex n (Suc k)) ! (k * 3 + 1) =
           fy (fernLoop rs hex n (Suc k)) * SCALE + Y_OFF"
    and "fpositions (fernLoop rs hex n (Suc k)) ! (k * 3 + 2) = 0"
proof -
  have len: "length (fpositions (fernLoop rs hex n k)) = n * 3"
    by (rule length_fernLoop)
  from assms have in_range: "k * 3 + 2 < n * 3"
    by simp
  show "fpositions (fernLoop rs hex n (Suc k)) ! (k * 3) = fx (fernLoop rs hex n (Suc k)) * SCALE"
    using in_range len by (simp add: fernBody_def Let_def)
  show "fpositions (fernLoop rs hex n (Suc k)) ! (k * 3 + 1) =
           fy (fernLoop rs hex n (Suc k)) * SCALE + Y_OFF"
    using in_range len by (simp add: fernBody_def Let_def)
  show "fpositions (fernLoop rs hex n (Suc k)) ! (k * 3 + 2) = 0"
    using in_range len by (simp add: fernBody_def Let_def)
qed

lemma fernLoop_step:
  "(fx (fernLoop rs hex n (Suc k)), fy (fernLoop rs hex n (Suc k))) =
     applyTransform (pickTransform (rs k)) (fx (fernLoop rs hex n k), fy (fernLoop rs hex n k))"
  by (simp add: fernBody_def Let_def)

text \<open>
  Claim C3.  The first transform is chosen exactly when the selector is below its own
  seventh coefficient, which is 0.01; the second exactly from 0.01 up to 0.86, the third
  exactly from 0.86 up to 0.93, the fourth exactly from 0.93 on.  A transform
  \<^verbatim>\<open>[a, b, c, d, e, f]\<close> takes the running point \<open>(x, y)\<close> to
  \<open>(a * x + b * y + e, c * x + d * y + f)\<close>.  In iteration \<open>k\<close> of a loop of \<open>n\<close> points the
  running point is updated by the transform chosen by the \<open>k\<close>-th selector, and the
  updated point, not the one before, is what the finished geometry holds as the position
  of point \<open>k\<close>: its coordinates scaled by \<open>SCALE\<close>, the second one offset by \<open>Y_OFF\<close>, and 0
  as third coordinate.  The positions of \<^verbatim>\<open>buildFernGeometryForValue\<close> are those of the loop
  run for the point count of the style.
\<close>

theorem fern_point_loop:
  assumes "k < n"
  shows "IFS ! 0 ! 6 = 0.01
   \<and> (pickTransform r = IFS ! 0) = (r < 0.01)
   \<and> (pickTransform r = IFS ! 1) = (0.01 \<le> r \<and> r < 0.86)
   \<and> (pickTransform r = IFS ! 2) = (0.86 \<le> r \<and> r < 0.93)
   \<and> (pickTransform r = IFS ! 3) = (0.93 \<le> r)
   \<and> applyTransform [a, b, c, d, e, f, p] (x, y) = (a * x + b * y + e, c * x + d * y + f)
   \<and> (fx (fernLoop rs hex n (Suc k)), fy (fernLoop rs hex n (Suc k))) =
        applyTransform (pickTransform (rs k)) (fx (fernLoop rs hex n k), fy (fernLoop rs hex n k))
   \<and> fpositions (fernLoop rs hex n n) ! (k * 3) = fx (fernLoop rs hex n (Suc k)) * SCALE
   \<and> fpositions (fernLoop rs hex n n) ! (k * 3 + 1) = fy (fernLoop rs hex n (Suc k)) * SCALE + Y_OFF
   \<and> fpositions (fernLoop rs hex n n) ! (k * 3 + 2) = 0
   \<and> positions (buildFernGeometryForValue rs v) =
        fpositions (fernLoop rs (fst (chooseStyle v)) (snd (chooseStyle v)) (snd (chooseStyle v)))"
proof -
  have c: "IFS ! 0 ! 6 = 0.01"
    by (simp add: IFS_def)
  have p0: "(pickTransform r = IFS ! 0) = (r < 0.01)"
    using IFS_rows_differ by (auto simp: pickTransform_cases)
  have p1: "(pickTransform r = IFS ! 1) = (0.01 \<le> r \<and> r < 0.86)"
    using IFS_rows_differ by (auto simp: pickTransform_cases)
  have p2: "(pickTransform r = IFS ! 2) = (0.86 \<le> r \<and> r < 0.93)"
    using IFS_rows_differ by (auto simp: pickTransform_cases)
  have p3: "(pickTransform r = IFS ! 3) = (0.93 \<le> r)"
    using IFS_rows_differ by (auto simp: pickTransform_cases)
  have t: "applyTransform [a, b, c, d, e, f, p] (x, y) = (a * x + b * y + e, c * x + d * y + f)"
    by (simp add: applyTransform_def)
  from assms have le: "Suc k \<le> n" by simp
  have k0: "k * 3 < Suc k * 3" and k1: "k * 3 + 1 < Suc k * 3" and k2: "k * 3 + 2 < Suc k * 3"
    by simp_all
  have w0: "fpositions (fernLoop rs hex n n) ! (k * 3) = fx (fernLoop rs hex n (Suc k)) * SCALE"
    using fernLoop_keeps [OF k0 le] fernLoop_writes(1) [OF assms] by simp
  have w1: "fpositions (fernLoop rs hex n n) ! (k * 3 + 1) =
      fy (fernLoop rs hex n (Suc k)) * SCALE + Y_OFF"
    using fernLoop_keeps [OF k1 le] fernLoop_writes(2) [OF assms] by simp
  have w2: "fpositions (fernLoop rs hex n n) ! (k * 3 + 2) = 0"
    using fernLoop_keeps [OF k2 le] fernLoop_writes(3) [OF assms] by simp
  have g: "positions (buildFernGeometryForValue rs v) =
      fpositions (fernLoop rs (fst (chooseStyle v)) (snd (chooseStyle v)) (snd (chooseStyle v)))"
    by (simp add: buildFernGeometryForValue_def Let_def)
  show ?thesis
    using c p0 p1 p2 p3 t fernLoop_step w0 w1 w2 g by blast
qed


theorem fern_point_loop_witness:
  "(1::nat) < 2
   \<and> IFS ! 0 ! 6 = 0.01
   \<and> pickTransform 0.5 = IFS ! 1
   \<and> pickTransform 0.005 = IFS ! 0
   \<and> fpositions (fernLoop (\<lambda>i. 0.5) ''#a56c34'' 2 2) ! 3 = 2.176
   \<and> fpositions (fernLoop (\<lambda>i. 0.5) ''#a56c34'' 2 2) ! 4 = 60.64
   \<and> fpositions (fernLoop (\<lambda>i. 0.5) ''#a56c34'' 2 2) ! 5 = 0"
proof -
  have h: "(1::nat) < 2" by simp
  have p: "pickTransform 0.5 = IFS ! 1" "pickTransform 0.005 = IFS ! 0"
    by (simp_all add: pickTransform_def IFS_def)
  have s: "fx (fernLoop (\<lambda>i. 0.5) ''#a56c34'' 2 (Suc (Suc 0))) = 0.064"
    "fy (fernLoop (\<lambda>i. 0.5) ''#a56c34'' 2 (Suc (Suc 0))) = 2.96"
    by (simp_all add: fernBody_def applyTransform_def pickTransform_def IFS_def Let_def)
  note th = fern_point_loop [OF h, of "0.5" 0 0 0 0 0 0 0 0 0 "\<lambda>i. 0.5" "''#a56c34''" None]
  from th have e0: "fpositions (fernLoop (\<lambda>i. 0.5) ''#a56c34'' 2 2) ! (1 * 3) =
      fx (fernLoop (\<lambda>i. 0.5) ''#a56c34'' 2 (Suc 1)) * SCALE"
    by blast
  from th have e1: "fpositions (fernLoop (\<lambda>i. 0.5) ''#a56c34'' 2 2) ! (1 * 3 + 1) =
      fy (fernLoop (\<lambda>i. 0.5) ''#a56c34'' 2 (Suc 1)) * SCALE + Y_OFF"
    by blast
  from th have e2: "fpositions (fernLoop (\<lambda>i. 0.5) ''#a56c34'' 2 2) ! (1 * 3 + 2) = 0"
    by blast
  from th have c: "IFS ! 0 ! 6 = 0.01"
    by blast
  have one: "Suc 1 = Suc (Suc 0)" by simp
  have i: "(1::nat) * 3 = 3" "(3::nat) + 1 = 4" "(3::nat) + 2 = 5" by simp_all
  from e0 have r0: "fpositions (fernLoop (\<lambda>i. 0.5) ''#a56c34'' 2 2) ! 3 = 2.176"
    by (simp only: one s i) (simp add: SCALE_def)
  from e1 have r1: "fpositions (fernLoop (\<lambda>i. 0.5) ''#a56c34'' 2 2) ! 4 = 60.64"
    by (simp only: one s i) (simp add: SCALE_def Y_OFF_def)
  from e2 have r2: "fpositions (fernLoop (\<lambda>i. 0.5) ''#a56c34'' 2 2) ! 5 = 0"
    by (simp only: i)
  show ?thesis
    using h c p r0 r1 r2 by blast
qed

section \<open>Properties of the time stepper\<close>

text \<open>Updating the ferns touches the meshes and the random numbers, nothing else.\<close>

lemma updateFern_frame:
  "monthIndex (updateFern y m i st) = monthIndex st"
  "yearIndex (updateFern y m i st) = yearIndex st"
  "yearList (updateFern y m i st) = yearList st"
  "subdivisionList (updateFern y m i st) = subdivisionList st"
  "dataBySubdivision (updateFern y m i st) = dataBySubdivision st"
  "tickMs (updateFern y m i st) = tickMs st"
  "lastTime (updateFern y m i st) = lastTime st"
  "anchors (updateFern y m i st) = anchors st"
  "scaleBySubdivision (updateFern y m i st) = scaleBySubdivision st"
  "hasYearSelect (updateFern y m i st) = hasYearSelect st"
  by (simp_all add: updateFern_def Let_def)

lemma updateLoop_frame:
  "monthIndex (updateLoop y m k st) = monthIndex st"
  "yearIndex (updateLoop y m k st) = yearIndex st"
  "yearList (updateLoop y m k st) = yearList st"
  "subdivisionList (updateLoop y m k st) = subdivisionList st"
  "dataBySubdivision (updateLoop y m k st) = dataBySubdivision st"
  "tickMs (updateLoop y m k st) = tickMs st"
  "lastTime (updateLoop y m k st) = lastTime st"
  "anchors (updateLoop y m k st) = anchors st"
  "scaleBySubdivision (updateLoop y m k st) = scaleBySubdivision st"
  "hasYearSelect (updateLoop y m k st) = hasYearSelect st"
  by (induction k) (simp_all add: updateFern_frame)

lemma updateAllFerns_frame:
  "monthIndex (updateAllFerns st) = monthIndex st"
  "yearIndex (updateAllFerns st) = yearIndex st"
  "yearList (updateAllFerns st) = yearList st"
  "subdivisionList (updateAllFerns st) = subdivisionList st"
  "dataBySubdivision (updateAllFerns st) = dataBySubdivision st"
  "tickMs (updateAllFerns st) = tickMs st"
  "lastTime (updateAllFerns st) = lastTime st"
  "anchors (updateAllFerns st) = anchors st"
  "scaleBySubdivision (updateAllFerns st) = scaleBySubdivision st"
  "hasYearSelect (updateAllFerns st) = hasYearSelect st"
  by (simp_all add: updateAllFerns_def Let_def updateLoop_frame)

lemma length_MONTHS: "length MONTHS = 12"
  by (simp add: MONTHS_def)

lemma step_indices:
  "yearIndex (step now st) = yearIndex st"
  "monthIndex (step now st) = (if fires now st then (monthIndex st + 1) mod 12 else monthIndex st)"
  by (simp_all add: step_def updateAllFerns_frame length_MONTHS)

lemma step_month_bound: "monthIndex st < 12 \<Longrightarrow> monthIndex (step now st) < 12"
  by (simp add: step_indices)

lemma runSteps_yearIndex: "yearIndex (runSteps nows st) = yearIndex st"
  by (induction nows arbitrary: st) (simp_all add: step_indices)

lemma runSteps_monthIndex:
  "monthIndex st < 12 \<Longrightarrow>
     monthIndex (runSteps nows st) = (monthIndex st + advances nows st) mod 12"
proof (induction nows arbitrary: st)
  case Nil
  then show ?case by simp
next
  case (Cons now nows)
  have "monthIndex (runSteps nows (step now st)) =
      (monthIndex (step now st) + advances nows (step now st)) mod 12"
    using Cons.IH [OF step_month_bound [OF Cons.prems]] .
  then show ?case
    by (simp add: step_indices mod_add_left_eq add.assoc)
qed

text \<open>
  Claim C8.  An automatic advance (a call of \<open>step\<close> whose condition holds) replaces the
  month index by its successor modulo twelve and leaves the year index; no call of
  \<open>step\<close> changes the year index.  So, from a state whose month index is one of the
  twelve months, after any run of calls the year index is what it was and the month
  index has moved by the number of automatic advances modulo twelve: when that number is
  a multiple of twelve, the month index is back at its starting value.
\<close>

theorem step_never_changes_year:
  assumes "monthIndex st < 12"
  shows "yearIndex (step now st) = yearIndex st
   \<and> (fires now st \<longrightarrow> monthIndex (step now st) = (monthIndex st + 1) mod 12)
   \<and> (\<not> fires now st \<longrightarrow> step now st = st)
   \<and> yearIndex (runSteps nows st) = yearIndex st
   \<and> monthIndex (runSteps nows st) = (monthIndex st + advances nows st) mod 12
   \<and> (advances nows st mod 12 = 0 \<longrightarrow> monthIndex (runSteps nows st) = monthIndex st)"
proof -
  have m: "monthIndex (runSteps nows st) = (monthIndex st + advances nows st) mod 12"
    using assms by (rule runSteps_monthIndex)
  have "advances nows st mod 12 = 0 \<longrightarrow> monthIndex (runSteps nows st) = monthIndex st"
  proof
    assume "advances nows st mod 12 = 0"
    then have "(monthIndex st + advances nows st) mod 12 = monthIndex st mod 12"
      by (metis add.right_neutral mod_add_right_eq)
    with m assms show "monthIndex (runSteps nows st) = monthIndex st"
      by simp
  qed
  moreover have "\<not> fires now st \<longrightarrow> step now st = st"
    by (simp add: step_def)
  ultimately show ?thesis
    using m by (simp add: step_indices runSteps_yearIndex)
qed

theorem step_never_changes_year_witness:
  "monthIndex stepperState < 12
   \<and> fires 1200 stepperState
   \<and> monthIndex (step 1200 stepperState) = 6
   \<and> yearIndex (step 1200 stepperState) = 0
   \<and> advances twelveTicks stepperState = 12
   \<and> monthIndex (runSteps twelveTicks stepperState) = 5
   \<and> yearIndex (runSteps twelveTicks stepperState) = 0"
proof -
  have h: "monthIndex stepperState < 12"
    by (simp add: stepperState_def initialState_def)
  have f: "fires 1200 stepperState"
    by (simp add: stepperState_def initialState_def fires_def)
  have a: "advances twelveTicks stepperState = 12"
    by (simp add: twelveTicks_def stepperState_def initialState_def step_def fires_def
        updateAllFerns_def MONTHS_def)
  have m: "monthIndex stepperState = 5" "yearIndex stepperState = 0"
    by (simp_all add: stepperState_def initialState_def)
  show ?thesis
    using step_never_changes_year [OF h, of 1200 twelveTicks] h f a m by simp
qed


section \<open>Properties of the alias table\<close>

lemma map_of_obj_put: "map_of (obj_put ob k v) = (map_of ob)(k \<mapsto> v)"
  by (induction ob) (auto simp: fun_eq_iff)

lemma map_of_foldl_obj_put:
  "map_of (foldl (\<lambda>ob e. obj_put ob (fst e) (snd e)) ob es) = map_of (rev es @ ob)"
proof (induction es arbitrary: ob)
  case Nil
  then show ?case by simp
next
  case (Cons e es)
  have "map_of (rev es @ obj_put ob (fst e) (snd e)) = map_of (rev es @ [e] @ ob)"
    by (simp add: map_of_obj_put fun_eq_iff map_add_def split: option.splits)
  with Cons.IH [of "obj_put ob (fst e) (snd e)"] show ?case
    by simp
qed

lemma map_of_fromEntries: "map_of (fromEntries es) = map_of (rev es)"
  by (simp add: fromEntries_def map_of_foldl_obj_put)

text \<open>
  Inverting a table whose targets are distinct: every entry is found back under its
  target.
\<close>

lemma reverseTable_inverts:
  assumes "distinct (map snd t)" and "(k, v) \<in> set t"
  shows "map_of (reverseTable t) v = Some k"
proof -
  have d: "distinct (map fst (rev (map (\<lambda>e. (snd e, fst e)) t)))"
    using assms(1) by (simp add: rev_map [symmetric] comp_def)
  have "(v, k) \<in> set (rev (map (\<lambda>e. (snd e, fst e)) t))"
    using assms(2) by force
  with d have "map_of (rev (map (\<lambda>e. (snd e, fst e)) t)) v = Some k"
    by (rule map_of_is_SomeI)
  then show ?thesis
    by (simp add: reverseTable_def map_of_fromEntries)
qed

lemma getProp_Own: "(getProp ob k = Own v) = (map_of ob k = Some v)"
  by (simp add: getProp_def split: option.splits)

lemma NAME_ALIASES_entries:
  "NAME_ALIASES =
     [(''andaman & nicobar islands'', ''1''),
      (''arunachal pradesh'', ''2''),
      (''assam & meghalaya'', ''3''),
      (''naga mani mizo tripura'', ''4''),
      (''sub himalayan west bengal & sikkim'', ''5''),
      (''gangetic west bengal'', ''6''),
      (''orissa'', ''7''),
      (''jharkhand'', ''8''),
      (''bihar'', ''9''),
      (''east uttar pradesh'', ''10''),
      (''west uttar pradesh'', ''11''),
      (''uttarakhand'', ''12''),
      (''haryana delhi & chandigarh'', ''13''),
      (''punjab'', ''14''),
      (''himachal pradesh'', ''15''),
      (''jammu & kashmir'', ''16''),
      (''west rajasthan'', ''17''),
      (''east rajasthan'', ''18''),
      (''west madhya pradesh'', ''19''),
      (''east madhya pradesh'', ''20''),
      (''gujarat region'', ''21''),
      (''saurashtra & kutch'', ''22''),
      (''konkan & goa'', ''23''),
      (''madhya maharashtra'', ''24''),
      (''matathwada'', ''25''),
      (''vidarbha'', ''26''),
      (''chhattisgarh'', ''27''),
      (''coastal andhra pradesh'', ''28''),
      (''telangana'', ''29''),
      (''rayalseema'', ''30''),
      (''tamil nadu'', ''31''),
      (''coastal karnataka'', ''32''),
      (''north interior karnataka'', ''33''),
      (''south interior karnataka'', ''34''),
      (''kerala'', ''35''),
      (''lakshadweep'', ''36'')]"
  by code_simp

text \<open>
  Claim C5.  For every key of the first naming scheme that \<^verbatim>\<open>NAME_ALIASES\<close> maps to a key
  of the second, looking that key up in \<^verbatim>\<open>REVERSE_ALIASES\<close> returns the key of the first
  scheme, provided no two entries of \<^verbatim>\<open>NAME_ALIASES\<close> have the same target.
\<close>

theorem alias_round_trip:
  assumes "distinct (map snd NAME_ALIASES)"
    and "getProp NAME_ALIASES k = Own v"
  shows "getProp REVERSE_ALIASES v = Own k"
proof -
  from assms(2) have "map_of NAME_ALIASES k = Some v"
    by (simp add: getProp_Own)
  then have "(k, v) \<in> set NAME_ALIASES"
    by (rule map_of_SomeD)
  with assms(1) have "map_of (reverseTable NAME_ALIASES) v = Some k"
    by (rule reverseTable_inverts)
  then show ?thesis
    by (simp add: REVERSE_ALIASES_def getProp_Own)
qed

theorem alias_round_trip_witness:
  "distinct (map snd NAME_ALIASES)
   \<and> getProp NAME_ALIASES (norm_js (Some ''Tamil  Nadu'')) = Own ''31''
   \<and> getProp REVERSE_ALIASES ''31'' = Own ''tamil nadu''"
proof -
  have d: "distinct (map snd NAME_ALIASES)"
    unfolding NAME_ALIASES_entries by simp
  have n: "norm_js (Some ''Tamil  Nadu'') = ''tamil nadu''"
    by code_simp
  have g: "getProp NAME_ALIASES ''tamil nadu'' = Own ''31''"
    unfolding NAME_ALIASES_entries by (simp add: getProp_def)
  show ?thesis
    using alias_round_trip [OF d g] d g n by simp
qed


section \<open>Properties of the value resolver\<close>










lemma valueFor_undefined_region: "valueFor d None y m = NaN"
  by (simp add: valueFor_def)




lemmas Number_defs =
  Number_def trim_def isSpace_def nonDecimal_def strDecimal_def strUnsignedDecimal_def
  parseExponent_def isDigit_def radixVal_def digitVal_def scale10_def overflow_def
  isRadixDigit_def Let_def



section \<open>Properties of the name normalizer\<close>

text \<open>
  Claim C2.  The normalizer is not idempotent.  White space is collapsed before the
  other characters are stripped, so a stripped character between two spaces leaves two
  spaces in the key, and a second normalization collapses them: the key of
  \<^verbatim>\<open>Jammu - Kashmir\<close> is not its own key.  The second half of the claim holds: the two
  spellings of Tamil Nadu have the same key.
\<close>

theorem norm_not_idempotent:
  "norm_js (Some ''Jammu - Kashmir'') = ''jammu  kashmir''
   \<and> norm_js (Some (norm_js (Some ''Jammu - Kashmir''))) = ''jammu kashmir''
   \<and> norm_js (Some (norm_js (Some ''Jammu - Kashmir''))) \<noteq> norm_js (Some ''Jammu - Kashmir'')
   \<and> norm_js (Some ''a - b'') = ''a  b''
   \<and> norm_js (Some (norm_js (Some ''a - b''))) = ''a b''
   \<and> norm_js (Some ''Tamil  Nadu'') = norm_js (Some ''tamil nadu'')"
  by code_simp

section \<open>Properties of the boundary loader\<close>

lemma loadBoundaries_fetch_fails:
  "loadBoundaries url Rejected = Throws FetchRejected"
  "loadBoundaries url (Response False status body) = Throws (FailedToLoad url status)"
  by (simp_all add: loadBoundaries_def)

lemma loadBoundaries_not_decoded:
  "loadBoundaries url (Response True status None) = Throws JsonSyntaxError"
  "loadBoundaries url (Response True status (Some JNull)) = Throws TypeError"
  by (simp_all add: loadBoundaries_def member_def)

lemma loadBoundaries_unrecognized:
  assumes "member d ''type'' = Inr t"
    and "t \<noteq> Some (JStr ''Topology'')" and "t \<noteq> Some (JStr ''FeatureCollection'')"
  shows "loadBoundaries url (Response True status (Some d)) = Throws (UnrecognizedDataType t)"
  using assms by (simp add: loadBoundaries_def)

lemma loadBoundaries_collection:
  assumes "member d ''type'' = Inr (Some (JStr ''FeatureCollection''))"
  shows "loadBoundaries url (Response True status (Some d)) = Returns d"
  using assms by (simp add: loadBoundaries_def)

lemma loadBoundaries_topology:
  assumes "member d ''type'' = Inr (Some (JStr ''Topology''))"
    and "member d ''objects'' = Inr (Some (JObj ((k, ob) # kvs)))"
  shows "loadBoundaries url (Response True status (Some d)) = ReturnsTopoFeature d (Some ob)"
  using assms by (simp add: loadBoundaries_def firstKey_def member_def propName_def)

lemma loadBoundaries_topology_no_objects:
  assumes "member d ''type'' = Inr (Some (JStr ''Topology''))"
    and "member d ''objects'' = Inr None \<or> member d ''objects'' = Inr (Some JNull)"
  shows "loadBoundaries url (Response True status (Some d)) = Throws TypeError"
  using assms by (auto simp: loadBoundaries_def firstKey_def)

text \<open>
  Claim C7, as amended.  The loader throws whenever the fetch does not succeed (the
  request is rejected, or the response is not ok) and whenever the type of the decoded
  document is neither \<^verbatim>\<open>Topology\<close> nor \<^verbatim>\<open>FeatureCollection\<close>.  These are not the only
  errors: it also throws when the body is not valid JSON, when the document is
  \<^verbatim>\<open>null\<close>, and when a \<^verbatim>\<open>Topology\<close> document has no \<^verbatim>\<open>objects\<close> member, or \<^verbatim>\<open>null\<close> for it.  On a
  \<^verbatim>\<open>FeatureCollection\<close> it returns the document unchanged.  On a \<^verbatim>\<open>Topology\<close> whose \<^verbatim>\<open>objects\<close>
  member is an object with at least one entry it returns what the library makes of the
  document and the first entry of \<^verbatim>\<open>objects\<close>.
\<close>

theorem loadBoundaries_outcomes:
  "loadBoundaries url Rejected = Throws FetchRejected
   \<and> loadBoundaries url (Response False status body) = Throws (FailedToLoad url status)
   \<and> loadBoundaries url (Response True status None) = Throws JsonSyntaxError
   \<and> loadBoundaries url (Response True status (Some JNull)) = Throws TypeError
   \<and> (member d ''type'' = Inr t \<and> t \<noteq> Some (JStr ''Topology'')
        \<and> t \<noteq> Some (JStr ''FeatureCollection'') \<longrightarrow>
        loadBoundaries url (Response True status (Some d)) = Throws (UnrecognizedDataType t))
   \<and> (member d ''type'' = Inr (Some (JStr ''FeatureCollection'')) \<longrightarrow>
        loadBoundaries url (Response True status (Some d)) = Returns d)
   \<and> (member d ''type'' = Inr (Some (JStr ''Topology''))
        \<and> member d ''objects'' = Inr (Some (JObj ((k, ob) # kvs))) \<longrightarrow>
        loadBoundaries url (Response True status (Some d)) = ReturnsTopoFeature d (Some ob))
   \<and> (member d ''type'' = Inr (Some (JStr ''Topology''))
        \<and> (member d ''objects'' = Inr None \<or> member d ''objects'' = Inr (Some JNull)) \<longrightarrow>
        loadBoundaries url (Response True status (Some d)) = Throws TypeError)"
  using loadBoundaries_fetch_fails loadBoundaries_not_decoded loadBoundaries_unrecognized
    loadBoundaries_collection loadBoundaries_topology loadBoundaries_topology_no_objects
  by (intro conjI impI; (elim conjE)?) blast+

theorem loadBoundaries_outcomes_witness:
  "member sampleCollection ''type'' = Inr (Some (JStr ''FeatureCollection''))
   \<and> loadBoundaries FILE_URL (Response True 200 (Some sampleCollection)) = Returns sampleCollection
   \<and> member sampleTopology ''type'' = Inr (Some (JStr ''Topology''))
   \<and> member sampleTopology ''objects'' =
        Inr (Some (JObj ((''subdivisions'', sampleObject) # [(''states'', JNull)])))
   \<and> loadBoundaries FILE_URL (Response True 200 (Some sampleTopology)) =
        ReturnsTopoFeature sampleTopology (Some sampleObject)
   \<and> member (JObj [(''type'', JStr ''Feature'')]) ''type'' = Inr (Some (JStr ''Feature''))
   \<and> loadBoundaries FILE_URL (Response True 200 (Some (JObj [(''type'', JStr ''Feature'')]))) =
        Throws (UnrecognizedDataType (Some (JStr ''Feature'')))
   \<and> loadBoundaries FILE_URL (Response False 404 None) = Throws (FailedToLoad FILE_URL 404)"
proof -
  have c: "member sampleCollection ''type'' = Inr (Some (JStr ''FeatureCollection''))"
    by (simp add: sampleCollection_def member_def)
  have t: "member sampleTopology ''type'' = Inr (Some (JStr ''Topology''))"
    "member sampleTopology ''objects'' =
       Inr (Some (JObj ((''subdivisions'', sampleObject) # [(''states'', JNull)])))"
    by (simp_all add: sampleTopology_def member_def)
  have f: "member (JObj [(''type'', JStr ''Feature'')]) ''type'' = Inr (Some (JStr ''Feature''))"
    by (simp add: member_def)
  have n: "Some (JStr ''Feature'') \<noteq> Some (JStr ''Topology'')"
    "Some (JStr ''Feature'') \<noteq> Some (JStr ''FeatureCollection'')"
    by simp_all
  from loadBoundaries_outcomes [of FILE_URL 200 None sampleCollection] c
  have r1: "loadBoundaries FILE_URL (Response True 200 (Some sampleCollection)) =
      Returns sampleCollection"
    by blast
  from loadBoundaries_outcomes [of FILE_URL 200 None sampleTopology _ "''subdivisions''"
      sampleObject "[(''states'', JNull)]"] t
  have r2: "loadBoundaries FILE_URL (Response True 200 (Some sampleTopology)) =
      ReturnsTopoFeature sampleTopology (Some sampleObject)"
    by blast
  from loadBoundaries_outcomes [of FILE_URL 200 None "JObj [(''type'', JStr ''Feature'')]"
      "Some (JStr ''Feature'')"] f n
  have r3: "loadBoundaries FILE_URL (Response True 200 (Some (JObj [(''type'', JStr ''Feature'')]))) =
      Throws (UnrecognizedDataType (Some (JStr ''Feature'')))"
    by blast
  from loadBoundaries_outcomes [of FILE_URL 404 None]
  have r4: "loadBoundaries FILE_URL (Response False 404 None) = Throws (FailedToLoad FILE_URL 404)"
    by blast
  show ?thesis
    using c t f r1 r2 r3 r4 by blast
qed

text \<open>
  The claim as first stated fails: the fetch succeeds and the type of the document is
  \<^verbatim>\<open>Topology\<close>, and the loader throws, because the document has no \<^verbatim>\<open>objects\<close> member.
\<close>

theorem loadBoundaries_iff_counterexample:
  "member (JObj [(''type'', JStr ''Topology'')]) ''type'' = Inr (Some (JStr ''Topology''))
   \<and> loadBoundaries FILE_URL (Response True 200 (Some (JObj [(''type'', JStr ''Topology'')]))) =
        Throws TypeError"
  by (simp add: loadBoundaries_def member_def firstKey_def)


section \<open>Properties of building and updating the ferns\<close>

text \<open>Building a fern appends one mesh and draws random numbers, nothing else.\<close>

lemma buildFern_frame:
  "anchors (fst (buildFern sub acc)) = anchors (fst acc)"
  "scaleBySubdivision (fst (buildFern sub acc)) = scaleBySubdivision (fst acc)"
  "dataBySubdivision (fst (buildFern sub acc)) = dataBySubdivision (fst acc)"
  "subdivisionList (fst (buildFern sub acc)) = subdivisionList (fst acc)"
  "yearList (fst (buildFern sub acc)) = yearList (fst acc)"
  "monthIndex (fst (buildFern sub acc)) = monthIndex (fst acc)"
  "yearIndex (fst (buildFern sub acc)) = yearIndex (fst acc)"
  "tickMs (fst (buildFern sub acc)) = tickMs (fst acc)"
  "lastTime (fst (buildFern sub acc)) = lastTime (fst acc)"
  "hasYearSelect (fst (buildFern sub acc)) = hasYearSelect (fst acc)"
  by (simp_all add: buildFern_def Let_def)

lemma buildFern_mesh:
  "\<exists>me. fernMeshes (fst (buildFern sub acc)) = fernMeshes (fst acc) @ [me]
     \<and> subdivision me = Some sub
     \<and> key me = Some (topoKeyOf sub)
     \<and> position me =
         (case anchors (fst acc) (topoKeyOf sub) of Some a \<Rightarrow> a | None \<Rightarrow> (0, 0, 0))
     \<and> scale me =
         (case scaleBySubdivision (fst acc) (topoKeyOf sub) of
            Some c \<Rightarrow> c | None \<Rightarrow> DEFAULT_SCALE)"
  by (simp add: buildFern_def Let_def createFernMesh_def)

lemma buildFern_missing:
  "snd (buildFern sub acc) =
     snd acc + (if anchors (fst acc) (topoKeyOf sub) = None then 1 else 0)"
  by (simp add: buildFern_def Let_def)

lemma buildLoop_frame:
  "anchors (fst (buildLoop subs acc)) = anchors (fst acc)"
  "scaleBySubdivision (fst (buildLoop subs acc)) = scaleBySubdivision (fst acc)"
  "dataBySubdivision (fst (buildLoop subs acc)) = dataBySubdivision (fst acc)"
  "subdivisionList (fst (buildLoop subs acc)) = subdivisionList (fst acc)"
  "yearList (fst (buildLoop subs acc)) = yearList (fst acc)"
  "monthIndex (fst (buildLoop subs acc)) = monthIndex (fst acc)"
  "yearIndex (fst (buildLoop subs acc)) = yearIndex (fst acc)"
  "tickMs (fst (buildLoop subs acc)) = tickMs (fst acc)"
  "lastTime (fst (buildLoop subs acc)) = lastTime (fst acc)"
  "hasYearSelect (fst (buildLoop subs acc)) = hasYearSelect (fst acc)"
  by (induction subs arbitrary: acc) (simp_all add: buildFern_frame)

text \<open>
  The meshes the loop appends, one per subdivision and in the order of the list, seen
  through each of their components.
\<close>

lemma buildFern_maps:
  "map subdivision (fernMeshes (fst (buildFern sub acc))) =
     map subdivision (fernMeshes (fst acc)) @ [Some sub]"
  "map key (fernMeshes (fst (buildFern sub acc))) =
     map key (fernMeshes (fst acc)) @ [Some (topoKeyOf sub)]"
  "map position (fernMeshes (fst (buildFern sub acc))) =
     map position (fernMeshes (fst acc)) @
       [case anchors (fst acc) (topoKeyOf sub) of Some a \<Rightarrow> a | None \<Rightarrow> (0, 0, 0)]"
  "map scale (fernMeshes (fst (buildFern sub acc))) =
     map scale (fernMeshes (fst acc)) @
       [case scaleBySubdivision (fst acc) (topoKeyOf sub) of
          Some c \<Rightarrow> c | None \<Rightarrow> DEFAULT_SCALE]"
  by (simp_all add: buildFern_def Let_def createFernMesh_def)

lemma buildLoop_meshes:
  "map subdivision (fernMeshes (fst (buildLoop subs acc))) =
     map subdivision (fernMeshes (fst acc)) @ map Some subs"
  "map key (fernMeshes (fst (buildLoop subs acc))) =
     map key (fernMeshes (fst acc)) @ map (\<lambda>s. Some (topoKeyOf s)) subs"
  "map position (fernMeshes (fst (buildLoop subs acc))) =
     map position (fernMeshes (fst acc)) @
       map (\<lambda>s. case anchors (fst acc) (topoKeyOf s) of Some a \<Rightarrow> a | None \<Rightarrow> (0, 0, 0)) subs"
  "map scale (fernMeshes (fst (buildLoop subs acc))) =
     map scale (fernMeshes (fst acc)) @
       map (\<lambda>s. case scaleBySubdivision (fst acc) (topoKeyOf s) of
                   Some c \<Rightarrow> c | None \<Rightarrow> DEFAULT_SCALE) subs"
  by (induction subs arbitrary: acc) (simp_all add: buildFern_maps buildFern_frame)

lemma buildLoop_missing:
  "snd (buildLoop subs acc) =
     snd acc + length (filter (\<lambda>s. anchors (fst acc) (topoKeyOf s) = None) subs)"
  by (induction subs arbitrary: acc) (simp_all add: buildFern_missing buildFern_frame)

lemma buildAllFerns_meshes:
  "map subdivision (fernMeshes (fst (buildAllFerns st))) = map Some (subdivisionList st)"
  "map key (fernMeshes (fst (buildAllFerns st))) =
     map (\<lambda>s. Some (topoKeyOf s)) (subdivisionList st)"
  "map position (fernMeshes (fst (buildAllFerns st))) =
     map (\<lambda>s. case anchors st (topoKeyOf s) of Some a \<Rightarrow> a | None \<Rightarrow> (0, 0, 0))
       (subdivisionList st)"
  "map scale (fernMeshes (fst (buildAllFerns st))) =
     map (\<lambda>s. case scaleBySubdivision st (topoKeyOf s) of
                 Some c \<Rightarrow> c | None \<Rightarrow> DEFAULT_SCALE) (subdivisionList st)"
  by (simp_all add: buildAllFerns_def buildLoop_meshes)

lemma buildAllFerns_length:
  "length (fernMeshes (fst (buildAllFerns st))) = length (subdivisionList st)"
  using buildAllFerns_meshes(1) [of st] by (metis length_map)

lemma buildAllFerns_frame:
  "anchors (fst (buildAllFerns st)) = anchors st"
  "scaleBySubdivision (fst (buildAllFerns st)) = scaleBySubdivision st"
  "dataBySubdivision (fst (buildAllFerns st)) = dataBySubdivision st"
  "subdivisionList (fst (buildAllFerns st)) = subdivisionList st"
  "yearList (fst (buildAllFerns st)) = yearList st"
  "monthIndex (fst (buildAllFerns st)) = monthIndex st"
  "yearIndex (fst (buildAllFerns st)) = yearIndex st"
  "tickMs (fst (buildAllFerns st)) = tickMs st"
  "lastTime (fst (buildAllFerns st)) = lastTime st"
  "hasYearSelect (fst (buildAllFerns st)) = hasYearSelect st"
  by (simp_all add: buildAllFerns_def buildLoop_frame)

lemma buildAllFerns_missing:
  "snd (buildAllFerns st) =
     length (filter (\<lambda>s. anchors st (topoKeyOf s) = None) (subdivisionList st))"
  by (simp add: buildAllFerns_def buildLoop_missing)

lemma nth_of_map_eq: "map f xs = map g ys \<Longrightarrow> i < length ys \<Longrightarrow> f (xs ! i) = g (ys ! i)"
  by (metis length_map nth_map)

text \<open>
  Claim C9.  \<^verbatim>\<open>buildAllFerns\<close> makes one mesh for every subdivision of the list, in order,
  whatever the anchors and values of the others are: the function has no error path.
  The mesh of a subdivision whose key has an anchor stands at the anchor; the mesh of
  one whose key has none stands at the origin, with the default scale when no scale is
  recorded for its key (none ever is, the table of overrides of the source being
  empty), and is counted: the number the function reports is the number of
  subdivisions without an anchor.
\<close>

theorem buildAllFerns_isolation:
  "length (fernMeshes (fst (buildAllFerns st))) = length (subdivisionList st)
   \<and> map subdivision (fernMeshes (fst (buildAllFerns st))) = map Some (subdivisionList st)
   \<and> snd (buildAllFerns st) =
        length (filter (\<lambda>s. anchors st (topoKeyOf s) = None) (subdivisionList st))
   \<and> (i < length (subdivisionList st)
        \<and> anchors st (topoKeyOf (subdivisionList st ! i)) = None \<longrightarrow>
        position (fernMeshes (fst (buildAllFerns st)) ! i) = (0, 0, 0))
   \<and> (i < length (subdivisionList st)
        \<and> anchors st (topoKeyOf (subdivisionList st ! i)) = None
        \<and> scaleBySubdivision st (topoKeyOf (subdivisionList st ! i)) = None \<longrightarrow>
        scale (fernMeshes (fst (buildAllFerns st)) ! i) = DEFAULT_SCALE)
   \<and> (i < length (subdivisionList st)
        \<and> anchors st (topoKeyOf (subdivisionList st ! i)) = Some a \<longrightarrow>
        position (fernMeshes (fst (buildAllFerns st)) ! i) = a)"
proof -
  have p: "position (fernMeshes (fst (buildAllFerns st)) ! i) =
      (case anchors st (topoKeyOf (subdivisionList st ! i)) of Some a \<Rightarrow> a | None \<Rightarrow> (0, 0, 0))"
    if "i < length (subdivisionList st)"
    using nth_of_map_eq [OF buildAllFerns_meshes(3) that] .
  have s: "scale (fernMeshes (fst (buildAllFerns st)) ! i) =
      (case scaleBySubdivision st (topoKeyOf (subdivisionList st ! i)) of
         Some c \<Rightarrow> c | None \<Rightarrow> DEFAULT_SCALE)"
    if "i < length (subdivisionList st)"
    using nth_of_map_eq [OF buildAllFerns_meshes(4) that] .
  show ?thesis
    using p s by (simp add: buildAllFerns_length buildAllFerns_meshes(1) buildAllFerns_missing)
qed

lemma topoKeyOf_samples:
  "topoKeyOf ''Kerala'' = KeyStr ''35''" "topoKeyOf ''Tamil Nadu'' = KeyStr ''31''"
  by code_simp+

lemma fernState_fields:
  "subdivisionList fernState = [''Kerala'', ''Tamil Nadu'']"
  "anchors fernState (KeyStr ''35'') = Some (10, 20, 0)"
  "anchors fernState (KeyStr ''31'') = None"
  "scaleBySubdivision fernState (KeyStr ''31'') = None"
  "dataBySubdivision fernState = keralaData"
  "nth_opt (yearList fernState) (yearIndex fernState) = Some (Fin 1990)"
  "nth_opt MONTHS (monthIndex fernState) = Some ''JAN''"
  by (simp_all add: fernState_def initialState_def nth_opt_def MONTHS_def)

theorem buildAllFerns_isolation_witness:
  "(1::nat) < length (subdivisionList fernState)
   \<and> anchors fernState (topoKeyOf (subdivisionList fernState ! 1)) = None
   \<and> scaleBySubdivision fernState (topoKeyOf (subdivisionList fernState ! 1)) = None
   \<and> anchors fernState (topoKeyOf (subdivisionList fernState ! 0)) = Some (10, 20, 0)
   \<and> length (fernMeshes (fst (buildAllFerns fernState))) = 2
   \<and> map subdivision (fernMeshes (fst (buildAllFerns fernState))) =
        [Some ''Kerala'', Some ''Tamil Nadu'']
   \<and> position (fernMeshes (fst (buildAllFerns fernState)) ! 1) = (0, 0, 0)
   \<and> scale (fernMeshes (fst (buildAllFerns fernState)) ! 1) = DEFAULT_SCALE
   \<and> position (fernMeshes (fst (buildAllFerns fernState)) ! 0) = (10, 20, 0)
   \<and> snd (buildAllFerns fernState) = 1"
proof -
  have h: "(1::nat) < length (subdivisionList fernState)"
    "(0::nat) < length (subdivisionList fernState)"
    "anchors fernState (topoKeyOf (subdivisionList fernState ! 1)) = None"
    "scaleBySubdivision fernState (topoKeyOf (subdivisionList fernState ! 1)) = None"
    "anchors fernState (topoKeyOf (subdivisionList fernState ! 0)) = Some (10, 20, 0)"
    by (simp_all add: fernState_fields topoKeyOf_samples)
  have m: "length (filter (\<lambda>s. anchors fernState (topoKeyOf s) = None)
      (subdivisionList fernState)) = 1"
    by (simp add: fernState_fields topoKeyOf_samples)
  note t1 = buildAllFerns_isolation [of fernState 1]
  note t0 = buildAllFerns_isolation [of fernState 0 "(10, 20, 0)"]
  from t1 have l: "length (fernMeshes (fst (buildAllFerns fernState))) = 2"
    by (simp add: fernState_fields)
  from t1 have s: "map subdivision (fernMeshes (fst (buildAllFerns fernState))) =
      [Some ''Kerala'', Some ''Tamil Nadu'']"
    by (simp add: fernState_fields)
  from t1 h have p1: "position (fernMeshes (fst (buildAllFerns fernState)) ! 1) = (0, 0, 0)"
    by blast
  from t1 h have s1: "scale (fernMeshes (fst (buildAllFerns fernState)) ! 1) = DEFAULT_SCALE"
    by blast
  from t0 h have p0: "position (fernMeshes (fst (buildAllFerns fernState)) ! 0) = (10, 20, 0)"
    by blast
  from t1 m have c: "snd (buildAllFerns fernState) = 1"
    by simp
  show ?thesis
    using h l s p1 s1 p0 c by blast
qed

text \<open>
  The loop of \<^verbatim>\<open>updateAllFerns\<close> after \<open>k\<close> iterations: the meshes below \<open>k\<close> have a new
  geometry, built for the value of the subdivision at the same index of the list; the
  others are untouched.
\<close>

lemma updateLoop_meshes:
  "k \<le> length (fernMeshes st) \<Longrightarrow>
     length (fernMeshes (updateLoop y m k st)) = length (fernMeshes st)
     \<and> (\<forall>i<k. \<exists>rs. fernMeshes (updateLoop y m k st) ! i =
           setFernValue rs (fernMeshes st ! i)
             (Some (valueFor (dataBySubdivision st) (nth_opt (subdivisionList st) i) y m)))
     \<and> (\<forall>i. k \<le> i \<longrightarrow> fernMeshes (updateLoop y m k st) ! i = fernMeshes st ! i)"
proof (induction k)
  case 0
  then show ?case by simp
next
  case (Suc k)
  let ?st = "updateLoop y m k st"
  from Suc have IH: "length (fernMeshes ?st) = length (fernMeshes st)"
    "\<forall>i<k. \<exists>rs. fernMeshes ?st ! i =
       setFernValue rs (fernMeshes st ! i)
         (Some (valueFor (dataBySubdivision st) (nth_opt (subdivisionList st) i) y m))"
    "\<forall>i. k \<le> i \<longrightarrow> fernMeshes ?st ! i = fernMeshes st ! i"
    by simp_all
  from Suc.prems IH(1) have k: "k < length (fernMeshes ?st)"
    by simp
  have m: "fernMeshes (updateLoop y m (Suc k) st) =
      (fernMeshes ?st)[k := setFernValue (randoms ?st) (fernMeshes st ! k)
        (Some (valueFor (dataBySubdivision st) (nth_opt (subdivisionList st) k) y m))]"
    using IH(3) by (simp add: updateFern_def Let_def updateLoop_frame)
  have "\<exists>rs. fernMeshes (updateLoop y m (Suc k) st) ! i =
      setFernValue rs (fernMeshes st ! i)
        (Some (valueFor (dataBySubdivision st) (nth_opt (subdivisionList st) i) y m))"
    if "i < Suc k" for i
  proof (cases "i = k")
    case True
    with m k show ?thesis by auto
  next
    case False
    with that have "i < k" by simp
    with IH(2) False m show ?thesis by simp
  qed
  moreover have "fernMeshes (updateLoop y m (Suc k) st) ! i = fernMeshes st ! i"
    if "Suc k \<le> i" for i
    using that m IH(3) by simp
  ultimately show ?case
    using m IH(1) by simp
qed

lemma updateAllFerns_length:
  "length (fernMeshes (updateAllFerns st)) = length (fernMeshes st)"
  using updateLoop_meshes [of "length (fernMeshes st)" st]
  by (simp add: updateAllFerns_def Let_def)

lemma updateAllFerns_mesh:
  assumes "i < length (fernMeshes st)"
  shows "\<exists>rs. fernMeshes (updateAllFerns st) ! i =
      setFernValue rs (fernMeshes st ! i)
        (Some (valueFor (dataBySubdivision st) (nth_opt (subdivisionList st) i)
           (nth_opt (yearList st) (yearIndex st)) (nth_opt MONTHS (monthIndex st))))"
proof -
  from assms have ne: "fernMeshes st \<noteq> []"
    by auto
  from updateLoop_meshes [of "length (fernMeshes st)" st] assms
  show ?thesis
    using ne by (simp add: updateAllFerns_def Let_def)
qed

text \<open>
  Claim C10.  After \<^verbatim>\<open>buildAllFerns\<close> the list of meshes is as long as the list of
  subdivisions, which the function leaves as it is, and the mesh at an index is the one
  built for the subdivision at that index.  \<^verbatim>\<open>updateAllFerns\<close> keeps the meshes in place
  and gives the mesh at an index the geometry of the value of the subdivision at the
  same index of the list; a mesh beyond the end of the list of subdivisions would get
  the geometry of NaN.  So after building and updating, every mesh carries the name of
  its subdivision and shows the value of that subdivision.
\<close>

theorem fern_index_alignment:
  "length (fernMeshes (fst (buildAllFerns st))) = length (subdivisionList (fst (buildAllFerns st)))
   \<and> subdivisionList (fst (buildAllFerns st)) = subdivisionList st
   \<and> (i < length (subdivisionList st) \<longrightarrow>
        subdivision (fernMeshes (fst (buildAllFerns st)) ! i) = Some (subdivisionList st ! i))
   \<and> length (fernMeshes (updateAllFerns st)) = length (fernMeshes st)
   \<and> subdivisionList (updateAllFerns st) = subdivisionList st
   \<and> (i < length (fernMeshes st) \<longrightarrow>
        (\<exists>rs. fernMeshes (updateAllFerns st) ! i =
           setFernValue rs (fernMeshes st ! i)
             (Some (valueFor (dataBySubdivision st) (nth_opt (subdivisionList st) i)
                (nth_opt (yearList st) (yearIndex st)) (nth_opt MONTHS (monthIndex st))))))
   \<and> (i < length (fernMeshes st) \<and> length (subdivisionList st) \<le> i \<longrightarrow>
        (\<exists>rs. fernMeshes (updateAllFerns st) ! i = setFernValue rs (fernMeshes st ! i) (Some NaN)))
   \<and> (i < length (subdivisionList st) \<longrightarrow>
        subdivision (fernMeshes (updateAllFerns (fst (buildAllFerns st))) ! i) =
          Some (subdivisionList st ! i)
        \<and> (\<exists>rs. geometry (fernMeshes (updateAllFerns (fst (buildAllFerns st))) ! i) =
             buildFernGeometryForValue rs
               (Some (valueFor (dataBySubdivision st) (Some (subdivisionList st ! i))
                  (nth_opt (yearList st) (yearIndex st)) (nth_opt MONTHS (monthIndex st))))))"
proof -
  let ?b = "fst (buildAllFerns st)"
  have a: "subdivision (fernMeshes ?b ! i) = Some (subdivisionList st ! i)"
    if "i < length (subdivisionList st)"
    using nth_of_map_eq [OF buildAllFerns_meshes(1) that] .
  have u: "\<exists>rs. fernMeshes (updateAllFerns st) ! i = setFernValue rs (fernMeshes st ! i) (Some NaN)"
    if "i < length (fernMeshes st)" "length (subdivisionList st) \<le> i"
    using updateAllFerns_mesh [OF that(1)] that(2)
    by (simp add: nth_opt_def valueFor_undefined_region)
  have b: "subdivision (fernMeshes (updateAllFerns ?b) ! i) = Some (subdivisionList st ! i)
      \<and> (\<exists>rs. geometry (fernMeshes (updateAllFerns ?b) ! i) =
           buildFernGeometryForValue rs
             (Some (valueFor (dataBySubdivision st) (Some (subdivisionList st ! i))
                (nth_opt (yearList st) (yearIndex st)) (nth_opt MONTHS (monthIndex st)))))"
    if i: "i < length (subdivisionList st)"
  proof -
    from i have "i < length (fernMeshes ?b)"
      by (simp add: buildAllFerns_length)
    from updateAllFerns_mesh [OF this] obtain rs where
      "fernMeshes (updateAllFerns ?b) ! i =
         setFernValue rs (fernMeshes ?b ! i)
           (Some (valueFor (dataBySubdivision st) (nth_opt (subdivisionList st) i)
              (nth_opt (yearList st) (yearIndex st)) (nth_opt MONTHS (monthIndex st))))"
      by (auto simp: buildAllFerns_frame)
    with i a [OF i] show ?thesis
      by (auto simp: setFernValue_def nth_opt_def)
  qed
  show ?thesis
    using a u b updateAllFerns_mesh [of i st]
    by (simp add: buildAllFerns_length buildAllFerns_frame updateAllFerns_length
        updateAllFerns_frame)
qed

lemma kerala_latest_value:
  "valueFor keralaData (Some ''Kerala'') (Some (Fin 1990)) (Some ''JAN'') = Fin 30"
  "valueFor keralaData (Some ''Tamil Nadu'') (Some (Fin 1990)) (Some ''JAN'') = NaN"
  by (simp_all add: valueFor_def keralaData_def keralaRows_def sampleRow_def mkRow_def
      YEAR_COL_def propName_def strict_eq_def Number_defs)

theorem fern_index_alignment_witness:
  "(0::nat) < length (subdivisionList fernState)
   \<and> (1::nat) < length (subdivisionList fernState)
   \<and> length (fernMeshes (fst (buildAllFerns fernState))) = 2
   \<and> subdivision (fernMeshes (fst (buildAllFerns fernState)) ! 0) = Some ''Kerala''
   \<and> subdivision (fernMeshes (fst (buildAllFerns fernState)) ! 1) = Some ''Tamil Nadu''
   \<and> subdivision (fernMeshes (updateAllFerns (fst (buildAllFerns fernState))) ! 0) = Some ''Kerala''
   \<and> (\<exists>rs. geometry (fernMeshes (updateAllFerns (fst (buildAllFerns fernState))) ! 0) =
         buildFernGeometryForValue rs (Some (Fin 30)))
   \<and> (\<exists>rs. geometry (fernMeshes (updateAllFerns (fst (buildAllFerns fernState))) ! 1) =
         buildFernGeometryForValue rs (Some NaN))"
proof -
  have h: "(0::nat) < length (subdivisionList fernState)"
    "(1::nat) < length (subdivisionList fernState)"
    by (simp_all add: fernState_fields)
  note t0 = fern_index_alignment [of fernState 0]
  note t1 = fern_index_alignment [of fernState 1]
  from t0 have l: "length (fernMeshes (fst (buildAllFerns fernState))) = 2"
    by (simp add: fernState_fields)
  from t0 h have a0: "subdivision (fernMeshes (fst (buildAllFerns fernState)) ! 0) = Some ''Kerala''"
    by (simp add: fernState_fields)
  from t1 h have a1: "subdivision (fernMeshes (fst (buildAllFerns fernState)) ! 1) = Some ''Tamil Nadu''"
    by (simp add: fernState_fields)
  from t0 h have b0:
    "subdivision (fernMeshes (updateAllFerns (fst (buildAllFerns fernState))) ! 0) = Some ''Kerala''"
    "\<exists>rs. geometry (fernMeshes (updateAllFerns (fst (buildAllFerns fernState))) ! 0) =
       buildFernGeometryForValue rs (Some (Fin 30))"
    by (simp_all add: fernState_fields kerala_latest_value)
  from t1 h have b1:
    "\<exists>rs. geometry (fernMeshes (updateAllFerns (fst (buildAllFerns fernState))) ! 1) =
       buildFernGeometryForValue rs (Some NaN)"
    by (simp add: fernState_fields kerala_latest_value)
  show ?thesis
    using h l a0 a1 b0 b1 by blast
qed


section \<open>Properties of the ingestion\<close>

subsection \<open>The parsed rows\<close>

lemma rowsLoop_filter:
  "rowsLoop headers lines rows =
     rows @ map (\<lambda>l. mkRow headers (splitCSVLine l))
              (filter (\<lambda>l. length (splitCSVLine l) = length headers) lines)"
  by (induction lines arbitrary: rows) (simp_all add: Let_def)

lemma loadCSVRows_rows:
  assumes "loadCSVRows (Some txt) = Inr rows"
  shows "\<exists>l0 rest. csvLines txt = l0 # rest
     \<and> rows = map (\<lambda>l. mkRow (map trim (splitOn CHR '','' l0)) (splitCSVLine l))
                (filter (\<lambda>l. length (splitCSVLine l) = length (splitOn CHR '','' l0)) rest)"
  using assms
  by (auto simp: loadCSVRows_def rowsLoop_filter Let_def split: list.splits)

subsection \<open>The groups\<close>

lemma pushRow_keys: "map fst (pushRow sub r tmp) = map fst tmp"
  by (induction tmp) (simp_all add: pushRow_def)

lemma pushRow_rows_if:
  "set (concat (map snd (pushRow sub r tmp))) =
     set (concat (map snd tmp)) \<union> (if sub \<in> fst ` set tmp then {r} else {})"
proof (induction tmp)
  case Nil
  then show ?case by (simp add: pushRow_def)
next
  case (Cons e tmp)
  have "pushRow sub r (e # tmp) =
      (if fst e = sub then (fst e, snd e @ [r]) else e) # pushRow sub r tmp"
    by (simp add: pushRow_def)
  with Cons.IH show ?case
    by (cases "fst e = sub") auto
qed

lemma pushRow_rows:
  "sub \<in> set (map fst tmp) \<Longrightarrow>
     set (concat (map snd (pushRow sub r tmp))) = insert r (set (concat (map snd tmp)))"
  using pushRow_rows_if [of sub r tmp] by auto

lemma keys_after_has:
  "set (map fst (if map_of tmp sub = None then tmp @ [(sub, [])] else tmp)) =
     insert sub (set (map fst tmp))"
proof (cases "map_of tmp sub")
  case None
  then show ?thesis by auto
next
  case (Some arr)
  then have "(sub, arr) \<in> set tmp"
    by (rule map_of_SomeD)
  then have "sub \<in> fst ` set tmp"
    by force
  with Some show ?thesis by auto
qed

lemma groupRows_distinct:
  "distinct (map fst tmp) \<Longrightarrow> distinct (map fst (groupRows rows tmp))"
proof (induction rows arbitrary: tmp)
  case Nil
  then show ?case by simp
next
  case (Cons r rows)
  show ?case
  proof (cases "r ''SUBDIVISION''")
    case None
    with Cons show ?thesis by simp
  next
    case (Some sub)
    have "distinct (map fst (pushRow sub r (if map_of tmp sub = None then tmp @ [(sub, [])] else tmp)))"
      using Cons.prems by (auto simp: pushRow_keys map_of_eq_None_iff)
    from Cons.IH [OF this] Cons.IH [OF Cons.prems] Some show ?thesis
      by simp
  qed
qed

lemma groupRows_keys:
  "set (map fst (groupRows rows tmp)) =
     set (map fst tmp) \<union> {s. s \<noteq> [] \<and> (\<exists>r\<in>set rows. r ''SUBDIVISION'' = Some s)}"
proof (induction rows arbitrary: tmp)
  case Nil
  then show ?case by simp
next
  case (Cons r rows)
  show ?case
  proof (cases "r ''SUBDIVISION''")
    case None
    with Cons.IH [of tmp] show ?thesis by auto
  next
    case (Some sub)
    show ?thesis
    proof (cases "sub = []")
      case True
      with Some Cons.IH [of tmp] show ?thesis by auto
    next
      case False
      let ?tmp = "pushRow sub r (if map_of tmp sub = None then tmp @ [(sub, [])] else tmp)"
      have "set (map fst ?tmp) = insert sub (set (map fst tmp))"
        using keys_after_has [of tmp sub] by (simp only: pushRow_keys)
      with Cons.IH [of ?tmp] Some False show ?thesis
        by auto
    qed
  qed
qed

lemma groupRows_rows:
  "set (concat (map snd (groupRows rows tmp))) =
     set (concat (map snd tmp)) \<union> {r \<in> set rows. named r}"
proof (induction rows arbitrary: tmp)
  case Nil
  then show ?case by simp
next
  case (Cons r rows)
  show ?case
  proof (cases "r ''SUBDIVISION''")
    case None
    with Cons.IH [of tmp] show ?thesis by (auto simp: named_def)
  next
    case (Some sub)
    show ?thesis
    proof (cases "sub = []")
      case True
      with Some Cons.IH [of tmp] show ?thesis by (auto simp: named_def)
    next
      case False
      let ?tmp0 = "if map_of tmp sub = None then tmp @ [(sub, [])] else tmp"
      have in_keys: "sub \<in> set (map fst ?tmp0)"
        using keys_after_has [of tmp sub] by simp
      have "set (concat (map snd ?tmp0)) = set (concat (map snd tmp))"
        by simp
      with pushRow_rows [OF in_keys, of r]
      have "set (concat (map snd (pushRow sub r ?tmp0))) = insert r (set (concat (map snd tmp)))"
        by simp
      with Cons.IH [of "pushRow sub r ?tmp0"] Some False show ?thesis
        by (auto simp: named_def)
    qed
  qed
qed

subsection \<open>The sort\<close>

lemma set_insertBy: "set (insertBy cmp x ys) = insert x (set ys)"
  by (induction ys) auto

lemma set_sortBy: "set (sortBy cmp xs) = set xs"
  by (induction xs) (simp_all add: sortBy_def set_insertBy)

text \<open>On finite numbers the sort by difference is the sort of the values.\<close>

lemma insertBy_Fin: "insertBy num_sub (Fin q) (map Fin qs) = map Fin (insort q qs)"
  by (induction qs) (auto simp: positive_def)

lemma sortBy_Fin: "sortBy num_sub (map Fin qs) = map Fin (sort qs)"
  by (induction qs) (simp_all add: sortBy_def insertBy_Fin)

lemma sort_distinct: "distinct xs \<Longrightarrow> sort xs = sorted_list_of_set (set xs)"
  by (simp add: sorted_list_of_set_sort_remdups distinct_remdups_id)

subsection \<open>The set of years\<close>

lemma addYear_Fin:
  "\<exists>qs'. addYear (map Fin qs) r = map Fin qs'
     \<and> (distinct qs \<longrightarrow> distinct qs')
     \<and> set qs' = set qs \<union> {q. yearOf r = Fin q}"
proof (cases "yearOf r")
  case (Fin q)
  show ?thesis
  proof (cases "q \<in> set qs")
    case True
    with Fin show ?thesis
      by (intro exI [of _ qs])
        (auto simp: addYear_def yearOf_def Number_isFinite_def setAdd_def Let_def)
  next
    case False
    with Fin show ?thesis
      by (intro exI [of _ "qs @ [q]"])
        (auto simp: addYear_def yearOf_def Number_isFinite_def setAdd_def Let_def)
  qed
qed (auto simp: addYear_def yearOf_def Number_isFinite_def Let_def intro!: exI [of _ qs])

lemma foldl_addYear_Fin:
  "\<exists>qs'. foldl addYear (map Fin qs) rs = map Fin qs'
     \<and> (distinct qs \<longrightarrow> distinct qs')
     \<and> set qs' = set qs \<union> {q. \<exists>r\<in>set rs. yearOf r = Fin q}"
proof (induction rs arbitrary: qs)
  case Nil
  then show ?case by auto
next
  case (Cons r rs)
  from addYear_Fin [of qs r] obtain q1 where q1: "addYear (map Fin qs) r = map Fin q1"
    "distinct qs \<longrightarrow> distinct q1" "set q1 = set qs \<union> {q. yearOf r = Fin q}"
    by blast
  from Cons.IH [of q1] obtain q2 where q2: "foldl addYear (map Fin q1) rs = map Fin q2"
    "distinct q1 \<longrightarrow> distinct q2" "set q2 = set q1 \<union> {q. \<exists>r\<in>set rs. yearOf r = Fin q}"
    by blast
  from q1 q2 show ?case
    by (intro exI [of _ q2]) auto
qed

subsection \<open>The derived lists\<close>

lemma ingestRainRows_lists:
  "subdivisionList (ingestRainRows rows st) =
     sort (map fst (groupRows rows []))"
  "yearList (ingestRainRows rows st) =
     sortBy num_sub
       (foldl addYear []
          (concat (map snd (map (\<lambda>e. (fst e, sortBy byYear (snd e))) (groupRows rows [])))))"
  by (simp_all add: ingestRainRows_def Let_def updateAllFerns_frame buildAllFerns_frame
      buildYearSelect_def comp_def)

lemma sorted_rows_set:
  "set (concat (map snd (map (\<lambda>e. (fst e, sortBy byYear (snd e))) tmp))) =
     set (concat (map snd tmp))"
  by (induction tmp) (simp_all add: set_sortBy)

lemma ingest_subdivisionList:
  "subdivisionList (ingestRainRows rows st) =
     sorted_list_of_set {s. s \<noteq> [] \<and> (\<exists>r\<in>set rows. r ''SUBDIVISION'' = Some s)}"
proof -
  have d: "distinct (map fst (groupRows rows []))"
    by (rule groupRows_distinct) simp
  have "set (map fst (groupRows rows [])) =
      {s. s \<noteq> [] \<and> (\<exists>r\<in>set rows. r ''SUBDIVISION'' = Some s)}"
    using groupRows_keys [of rows "[]"] by simp
  with sort_distinct [OF d] show ?thesis
    by (simp add: ingestRainRows_lists del: set_map)
qed

lemma ingest_yearList_sorted:
  "\<exists>qs. distinct qs
     \<and> set qs = {q. \<exists>r\<in>set rows. named r \<and> yearOf r = Fin q}
     \<and> yearList (ingestRainRows rows st) = map Fin (sort qs)"
proof -
  define R where
    "R = concat (map snd (map (\<lambda>e. (fst e, sortBy byYear (snd e))) (groupRows rows [])))"
  have rs: "set R = {r \<in> set rows. named r}"
    unfolding R_def
    using groupRows_rows [of rows "[]"] sorted_rows_set [of "groupRows rows []"] by simp
  from foldl_addYear_Fin [of "[]" R] obtain qs where qs: "foldl addYear [] R = map Fin qs"
    "distinct qs" "set qs = {q. \<exists>r\<in>set R. yearOf r = Fin q}"
    by auto
  from qs(3) rs have "set qs = {q. \<exists>r\<in>set rows. named r \<and> yearOf r = Fin q}"
    by auto
  moreover have "yearList (ingestRainRows rows st) = sortBy num_sub (foldl addYear [] R)"
    unfolding R_def by (rule ingestRainRows_lists(2))
  ultimately show ?thesis
    using qs(1,2) by (intro exI [of _ qs]) (simp add: sortBy_Fin)
qed

lemma ingest_yearList:
  "yearList (ingestRainRows rows st) =
     map Fin (sorted_list_of_set {q. \<exists>r\<in>set rows. named r \<and> yearOf r = Fin q})"
  using ingest_yearList_sorted [of rows st] by (auto simp: sort_distinct)

lemma num_lt_Fin: "sorted_wrt num_lt (map Fin qs) = sorted_wrt (<) qs"
  by (induction qs) auto

lemma ingest_yearList_ascending: "sorted_wrt num_lt (yearList (ingestRainRows rows st))"
proof -
  from ingest_yearList_sorted [of rows st] obtain qs where qs: "distinct qs"
    "yearList (ingestRainRows rows st) = map Fin (sort qs)"
    by blast
  have "sorted_wrt (<) (sort qs)"
    using qs(1) by (simp add: strict_sorted_iff)
  with qs(2) show ?thesis
    by (simp add: num_lt_Fin)
qed

lemma ingest_subdivisionList_ascending:
  "sorted_wrt (<) (subdivisionList (ingestRainRows rows st))"
proof -
  have "distinct (map fst (groupRows rows []))"
    by (rule groupRows_distinct) simp
  then show ?thesis
    by (simp add: ingestRainRows_lists(1) strict_sorted_iff)
qed

text \<open>
  Claim C6, as amended.  The parsed rows are the lines after the header whose number of
  fields is the header's, in order: a line with another number of fields gives no row.
  After ingesting rows, the list of subdivisions is the ascending list, without
  duplicates, of the region names that are not empty, in the lexicographic order of
  strings; the list of years is the ascending list, without duplicates, of the years
  that are finite numbers among the rows that have a region name.  A row whose region
  name is missing or empty is skipped: its year is not in the list of years.
\<close>

theorem ingestion_derived_lists:
  "(loadCSVRows (Some txt) = Inr rows \<longrightarrow>
      (\<exists>l0 rest. csvLines txt = l0 # rest
         \<and> rows = map (\<lambda>l. mkRow (map trim (splitOn CHR '','' l0)) (splitCSVLine l))
                    (filter (\<lambda>l. length (splitCSVLine l) = length (splitOn CHR '','' l0)) rest)))
   \<and> subdivisionList (ingestRainRows rows st) =
        sorted_list_of_set {s. s \<noteq> [] \<and> (\<exists>r\<in>set rows. r ''SUBDIVISION'' = Some s)}
   \<and> sorted_wrt (<) (subdivisionList (ingestRainRows rows st))
   \<and> yearList (ingestRainRows rows st) =
        map Fin (sorted_list_of_set {q. \<exists>r\<in>set rows. named r \<and> yearOf r = Fin q})
   \<and> sorted_wrt num_lt (yearList (ingestRainRows rows st))"
  using loadCSVRows_rows [of _ rows] ingest_subdivisionList [of rows st]
    ingest_subdivisionList_ascending [of rows st] ingest_yearList [of rows st]
    ingest_yearList_ascending [of rows st]
  by blast

lemma sampleText_rows: "loadCSVRows (Some sampleText) = Inr sampleRows"
  by (simp add: loadCSVRows_def csvLines_def sampleText_def sampleRows_def sampleHeader_def
      splitCSVLine_def trim_def isSpace_def Let_def)

lemma sampleRows_years:
  "yearOf (mkRow sampleHeader [''Kerala'', ''1985'', ''20'']) = Fin 1985"
  "yearOf (mkRow sampleHeader [''Goa'', ''1980'', ''5'']) = Fin 1980"
  "yearOf (mkRow sampleHeader [''Kerala'', ''1980'', ''10'']) = Fin 1980"
  by (simp_all add: yearOf_def YEAR_COL_def sampleHeader_def mkRow_def Number_defs)

lemma sampleRows_names:
  "mkRow sampleHeader [''Kerala'', ''1985'', ''20''] ''SUBDIVISION'' = Some ''Kerala''"
  "mkRow sampleHeader [''Goa'', ''1980'', ''5''] ''SUBDIVISION'' = Some ''Goa''"
  "mkRow sampleHeader [''Kerala'', ''1980'', ''10''] ''SUBDIVISION'' = Some ''Kerala''"
  by (simp_all add: sampleHeader_def mkRow_def)

lemma sample_sorted_lists:
  "sorted_list_of_set {''Kerala'', ''Goa''} = [''Goa'', ''Kerala'']"
  "sorted_list_of_set {1985, 1980 :: rat} = [1980, 1985]"
  using sorted_list_of_set_sort_remdups [of "[''Kerala'', ''Goa'']"]
    sorted_list_of_set_sort_remdups [of "[1985, 1980 :: rat]"]
  by simp_all

theorem ingestion_derived_lists_witness:
  "loadCSVRows (Some sampleText) = Inr sampleRows
   \<and> length (csvLines sampleText) = 5
   \<and> length sampleRows = 3
   \<and> subdivisionList (ingestRainRows sampleRows (initialState halves True)) = [''Goa'', ''Kerala'']
   \<and> yearList (ingestRainRows sampleRows (initialState halves True)) = [Fin 1980, Fin 1985]"
proof -
  have l: "length (csvLines sampleText) = 5" "length sampleRows = 3"
    by (simp_all add: csvLines_def sampleText_def sampleRows_def)
  have n: "{s. s \<noteq> [] \<and> (\<exists>r\<in>set sampleRows. r ''SUBDIVISION'' = Some s)} = {''Kerala'', ''Goa''}"
    by (auto simp: sampleRows_def sampleRows_names)
  have y: "{q. \<exists>r\<in>set sampleRows. named r \<and> yearOf r = Fin q} = {1985, 1980}"
    by (auto simp: sampleRows_def sampleRows_names sampleRows_years named_def)
  note th = ingestion_derived_lists [of sampleText sampleRows "initialState halves True"]
  from th have "subdivisionList (ingestRainRows sampleRows (initialState halves True)) =
      sorted_list_of_set {''Kerala'', ''Goa''}"
    unfolding n by blast
  moreover from th have "yearList (ingestRainRows sampleRows (initialState halves True)) =
      map Fin (sorted_list_of_set {1985, 1980})"
    unfolding y by blast
  ultimately show ?thesis
    using sampleText_rows l by (simp add: sample_sorted_lists)
qed

text \<open>
  The claim as first stated fails on a row without a region name.  The second line of
  the text has as many fields as the header, so it is a parsed row; its region name is
  the empty string and its year is the finite number 2000.  After ingestion the empty
  name is not in the list of subdivisions and 2000 is not in the list of years.
\<close>

lemma orphanRows_facts:
  "yearOf (mkRow [''SUBDIVISION'', ''YEAR''] [[], ''2000'']) = Fin 2000"
  "yearOf (mkRow [''SUBDIVISION'', ''YEAR''] [''Kerala'', ''2001'']) = Fin 2001"
  "mkRow [''SUBDIVISION'', ''YEAR''] [[], ''2000''] ''SUBDIVISION'' = Some []"
  "mkRow [''SUBDIVISION'', ''YEAR''] [''Kerala'', ''2001''] ''SUBDIVISION'' = Some ''Kerala''"
  by (simp_all add: yearOf_def YEAR_COL_def mkRow_def Number_defs)

theorem ingestion_all_rows_counterexample:
  "loadCSVRows (Some orphanText) = Inr orphanRows
   \<and> (orphanRows ! 0) ''SUBDIVISION'' = Some []
   \<and> yearOf (orphanRows ! 0) = Fin 2000
   \<and> subdivisionList (ingestRainRows orphanRows (initialState halves True)) = [''Kerala'']
   \<and> yearList (ingestRainRows orphanRows (initialState halves True)) = [Fin 2001]"
proof -
  have r: "loadCSVRows (Some orphanText) = Inr orphanRows"
    by (simp add: loadCSVRows_def csvLines_def orphanText_def orphanRows_def
        splitCSVLine_def trim_def isSpace_def Let_def)
  have n: "{s. s \<noteq> [] \<and> (\<exists>r\<in>set orphanRows. r ''SUBDIVISION'' = Some s)} = {''Kerala''}"
    by (auto simp: orphanRows_def orphanRows_facts)
  have y: "{q. \<exists>r\<in>set orphanRows. named r \<and> yearOf r = Fin q} = {2001}"
    by (auto simp: orphanRows_def orphanRows_facts named_def)
  have "subdivisionList (ingestRainRows orphanRows (initialState halves True)) = [''Kerala'']"
    by (simp add: ingest_subdivisionList n)
  moreover have "yearList (ingestRainRows orphanRows (initialState halves True)) = [Fin 2001]"
    by (simp add: ingest_yearList y)
  ultimately show ?thesis
    using r by (simp add: orphanRows_def orphanRows_facts)
qed


section \<open>Properties of the value resolver on the ingested records\<close>

subsection \<open>The order the sort by year leaves\<close>







subsection \<open>The records of a region\<close>





subsection \<open>The sample tables\<close>











subsection \<open>The contract of the value resolver\<close>




end
